theory Spec2Isabelle
  imports Main "HOL-Library.Char_ord" "HOL-Library.List_Lexorder"
begin

chapter \<open>image-build: the build helper docker-build.py\<close>

text \<open>
  A shallow embedding of \<^verbatim>\<open>docker-build.py\<close>: the classes \<^verbatim>\<open>Utils\<close>,
  \<^verbatim>\<open>TagCandidate\<close>, \<^verbatim>\<open>BuildVariant\<close>, \<^verbatim>\<open>Build\<close> and \<^verbatim>\<open>Builder\<close>, function by
  function, with the source quoted above each definition. The program is read as
  Python 3: a dict iterates in insertion order. The libraries it calls (Jinja2, the
  Docker SDK, \<^verbatim>\<open>re\<close>, \<^verbatim>\<open>os\<close>, YAML) are parameters of the embedding. The sections up
  to ``Further examples'' hold the definitions, the sections after them the properties.
\<close>

section \<open>Python values and insertion-ordered dictionaries\<close>

text \<open>
  The program works on the trees that YAML and the command line give it: scalars,
  sequences and mappings with string keys. A mapping is an association list with
  distinct keys, in insertion order (the order a Python dict iterates in).
\<close>

datatype pyval =
    PNone
  | PBool bool
  | PInt int
  | PStr string
  | PList "pyval list"
  | PDict "(string \<times> pyval) list"

type_synonym pydict = "(string \<times> pyval) list"

text \<open>Python's \<^verbatim>\<open>==\<close> on these values: a bool equals the integer 0 or 1, sequences
  compare element by element, mappings compare key by key whatever their order.\<close>

fun py_eq :: "pyval \<Rightarrow> pyval \<Rightarrow> bool" where
  "py_eq PNone PNone = True"
| "py_eq (PBool a) (PBool b) = (a = b)"
| "py_eq (PBool a) (PInt j) = ((if a then 1 else 0) = j)"
| "py_eq (PInt i) (PBool b) = (i = (if b then 1 else 0))"
| "py_eq (PInt i) (PInt j) = (i = j)"
| "py_eq (PStr s) (PStr t) = (s = t)"
| "py_eq (PList xs) (PList ys) = list_all2 py_eq xs ys"
| "py_eq (PDict d) (PDict e) =
     (length d = length e \<and>
      list_all (\<lambda>(k, v). case map_of e k of None \<Rightarrow> False | Some w \<Rightarrow> py_eq v w) d)"
| "py_eq _ _ = False"

definition is_dict :: "pyval \<Rightarrow> bool" where
  "is_dict v = (case v of PDict _ \<Rightarrow> True | _ \<Rightarrow> False)"

text \<open>\<^verbatim>\<open>d[k] = v\<close>: an existing key keeps its position, a new key goes last.\<close>

fun dict_set :: "(string \<times> 'v) list \<Rightarrow> string \<Rightarrow> 'v \<Rightarrow> (string \<times> 'v) list" where
  "dict_set [] k v = [(k, v)]"
| "dict_set ((k', v') # d) k v =
     (if k' = k then (k', v) # d else (k', v') # dict_set d k v)"

definition keys :: "(string \<times> 'v) list \<Rightarrow> string list" where
  "keys d = map fst d"

definition wf_dict :: "(string \<times> 'v) list \<Rightarrow> bool" where
  "wf_dict d = distinct (keys d)"

section \<open>Errors\<close>

text \<open>
  The exceptions the program raises or lets through, as values. \<open>NotModelled\<close> marks
  the edge of the model: an input outside the spec's data model (a tag definition whose
  \<^verbatim>\<open>selectors\<close> is not a sequence of strings, say), or a construct of the template
  language outside the fragment of section ``A fragment of the template library''.
  What Python does there is not claimed.
\<close>

type_synonym event = "(string \<times> string) list"

datatype build_msg = Msg string | Ev event

datatype py_error =
    TypeError
  | KeyError string
  | IndexError
  | AttributeError
  | UnboundLocalError string
  | UndefinedError string
  | TemplateSyntaxError
  | TemplateNotFound
  | BuildError build_msg
  | DockerException string
  | IOError
  | RecursionError
  | NotModelled

section \<open>Utils.merge\_dict\<close>

text \<open>
  \<^verbatim>\<open>
  def merge_dict(a, b, path=[]):
      result = a.copy()
      for key in b:
          if key in result:
              if isinstance(result[key], dict) and isinstance(b[key], dict):
                  result[key] = Utils.merge_dict(result[key], b[key], path + [str(key)])
              elif result[key] == b[key]:
                  pass  # same leaf value
              else:
                  result[key] = b[key]
          else:
              result[key] = b[key]
      return result
  \<close>
  The first argument of \<open>merge_loop\<close> is \<open>result\<close>, the second is what is left of the
  iteration over \<open>b\<close>; \<open>merge_dict a b path\<close> starts the loop at the copy of \<open>a\<close>.
\<close>

fun merge_loop :: "pydict \<Rightarrow> pydict \<Rightarrow> string list \<Rightarrow> pydict" where
  "merge_loop result [] path = result"
| "merge_loop result ((key, bv) # b) path =
     merge_loop
       (case map_of result key of
          Some rv \<Rightarrow>
            (case (rv, bv) of
               (PDict ra, PDict rb) \<Rightarrow>
                 dict_set result key (PDict (merge_loop ra rb (path @ [key])))
             | _ \<Rightarrow> if py_eq rv bv then result else dict_set result key bv)
        | None \<Rightarrow> dict_set result key bv)
       b path"

definition merge_dict :: "pydict \<Rightarrow> pydict \<Rightarrow> string list \<Rightarrow> pydict" where
  "merge_dict a b path = merge_loop a b path"

section \<open>Utils.merge\_dict on the heap\<close>

text \<open>
  Whether a call changes its arguments cannot be read off a function on values. For
  that, \<^verbatim>\<open>merge_dict\<close> is embedded a second time, over a store: a dict is an object at
  an address, its items hold leaves (every value that is not a dict; \<^verbatim>\<open>merge_dict\<close>
  only compares them) or references to dicts, and \<^verbatim>\<open>result[key] = ...\<close> updates the
  object at the address of \<^verbatim>\<open>result\<close> in place. \<^verbatim>\<open>a.copy()\<close> allocates a new object
  with the items of \<open>a\<close>: a shallow copy. The loop runs over the items of \<open>b\<close> as they
  are when it starts. The first argument bounds the depth of the recursive calls;
  \<open>None\<close> says that the bound was too small, or that an address is not in the store.
\<close>

datatype hval = Leaf pyval | Ref nat

type_synonym hdict = "(string \<times> hval) list"

type_synonym heap = "hdict list"


text \<open>
  \<open>represents X h v t\<close>: in the store \<open>h\<close>, the item value \<open>v\<close> stands for the tree
  \<open>t\<close>, through objects whose addresses are not in \<open>X\<close>. \<open>entries\<close> is the same for the
  items of a dict.
\<close>

fun represents :: "nat set \<Rightarrow> heap \<Rightarrow> hval \<Rightarrow> pyval \<Rightarrow> bool" where
  "represents X h (Ref p) (PDict d) =
     (p < length h \<and> p \<notin> X
      \<and> list_all2 (\<lambda>kv kt. fst kv = fst kt \<and> represents X h (snd kv) (snd kt)) (h ! p) d)"
| "represents X h (Ref p) t = False"
| "represents X h (Leaf x) t = (x = t \<and> \<not> is_dict t)"


section \<open>The template library, and Utils.render\_template\<close>

text \<open>
  Jinja2 is a library, not part of the program: the program is embedded over the calls
  it makes, gathered in a record.
  \<^item> \<open>Template src\<close> is \<^verbatim>\<open>jinja2.Template(src)\<close>, compiled in the library's default
    environment;
  \<^item> \<open>render t vars\<close> is \<^verbatim>\<open>t.render(vars)\<close>;
  \<^item> \<open>parse env data\<close> is \<^verbatim>\<open>env.parse(data)\<close>, and
    \<open>find_undeclared_variables\<close> is \<^verbatim>\<open>jinja2.meta.find_undeclared_variables\<close>
    (the names the template looks up in its context);
  \<^item> \<open>from_string env ast\<close> is \<^verbatim>\<open>env.from_string(ast)\<close>;
  \<^item> \<open>get_template dir name\<close> is \<^verbatim>\<open>get_template(name)\<close> of
    \<^verbatim>\<open>Environment(loader=FileSystemLoader(dir), undefined=StrictUndefined)\<close>.
\<close>

datatype undefined_class = Undefined | StrictUndefined

datatype environment = Environment undefined_class

record ('t, 'a) jinja =
  Template :: "string \<Rightarrow> py_error + 't"
  render :: "'t \<Rightarrow> pydict \<Rightarrow> py_error + string"
  parse :: "environment \<Rightarrow> string \<Rightarrow> py_error + 'a"
  find_undeclared_variables :: "'a \<Rightarrow> string list"
  from_string :: "environment \<Rightarrow> 'a \<Rightarrow> 't"
  get_template :: "string \<Rightarrow> string \<Rightarrow> py_error + 't"

text \<open>
  \<^verbatim>\<open>
  def render_template(template, variables={}, env=None):
      if not env:
          _env = Environment(undefined=StrictUndefined)
      else:
          _env = env
      data = template.render(variables)
      ast = _env.parse(data)
      if find_undeclared_variables(ast):
          _template = _env.from_string(ast)
          return Utils.render_template(_template, variables, _env)
      else:
          return data
  \<close>
  The recursion has no bound of its own: what ends a run of calls that never reaches a
  stable string is the interpreter, which raises \<open>RecursionError\<close> when the calls are
  nested deeper than its recursion limit allows. The first argument after the library
  is the number of nested calls of \<^verbatim>\<open>render_template\<close> the interpreter has room for
  (a parameter: it depends on the limit and on the frames already on the stack); a call
  beyond it raises. The result \<open>Some (Inl e)\<close> says that the call raised \<open>e\<close>,
  \<open>Some (Inr s)\<close> that it returned \<open>s\<close>. The third result, \<open>None\<close> for a call that does
  not return, is one the callers provide for and \<open>render_template\<close> never has.
\<close>

fun render_template ::
  "('t, 'a) jinja \<Rightarrow> nat \<Rightarrow> 't \<Rightarrow> pydict \<Rightarrow> environment option \<Rightarrow> (py_error + string) option" where
  "render_template J 0 tmpl variables env = Some (Inl RecursionError)"
| "render_template J (Suc n) tmpl variables env =
     (let env' = (case env of None \<Rightarrow> Environment StrictUndefined | Some e \<Rightarrow> e) in
      case render J tmpl variables of
        Inl err \<Rightarrow> Some (Inl err)
      | Inr data \<Rightarrow>
          (case parse J env' data of
             Inl err \<Rightarrow> Some (Inl err)
           | Inr ast \<Rightarrow>
               if find_undeclared_variables J ast \<noteq> [] then
                 render_template J n (from_string J env' ast) variables (Some env')
               else Some (Inr data)))"

section \<open>A fragment of the template library\<close>

text \<open>
  For the examples, an instance of the interface: templates made of literal text and of
  \<^verbatim>\<open>{{ name }}\<close> references to variables whose values are strings. A reference to a
  missing variable is an \<open>UndefinedError\<close> in an environment with \<open>StrictUndefined\<close>
  and renders as the empty string with the default \<open>Undefined\<close>. Statements
  (\<^verbatim>\<open>{% %}\<close>), comments, filters, attribute access and non-string values are outside the
  fragment. \<open>files\<close> lists the template files on disk, path and content.
\<close>

datatype node = TemplateData string | Name string

record template_obj =
  t_env :: environment
  t_nodes :: "node list"

text \<open>The text up to the first \<^verbatim>\<open>}}\<close>, and the text after it.\<close>

fun split_close :: "string \<Rightarrow> string \<Rightarrow> (string \<times> string) option" where
  "split_close acc (c # d # cs) =
     (if c = CHR ''}'' \<and> d = CHR ''}'' then Some (rev acc, cs)
      else split_close (c # acc) (d # cs))"
| "split_close acc cs = None"

lemma split_close_length:
  "split_close acc s = Some (e, rest) \<Longrightarrow> length rest < length s"
  by (induction acc s rule: split_close.induct) (auto split: if_splits)

definition ident_chars :: string where
  "ident_chars = ''abcdefghijklmnopqrstuvwxyzABCDEFGHIJKLMNOPQRSTUVWXYZ0123456789_''"

definition strip_spaces :: "string \<Rightarrow> string" where
  "strip_spaces s =
     rev (dropWhile (\<lambda>c. c = CHR '' '') (rev (dropWhile (\<lambda>c. c = CHR '' '') s)))"

definition expression :: "string \<Rightarrow> py_error + string" where
  "expression e =
     (let x = strip_spaces e in
      if x = [] then Inl TemplateSyntaxError
      else if list_all (\<lambda>c. c \<in> set ident_chars) x then Inr x
      else Inl NotModelled)"

definition flush :: "string \<Rightarrow> node list \<Rightarrow> node list" where
  "flush acc ns = (if acc = [] then ns else TemplateData (rev acc) # ns)"

function parse_nodes :: "string \<Rightarrow> string \<Rightarrow> py_error + node list" where
  "parse_nodes acc [] = Inr (flush acc [])"
| "parse_nodes acc [c] = Inr (flush (c # acc) [])"
| "parse_nodes acc (c # d # cs) =
     (if c = CHR ''{'' \<and> d = CHR ''{'' then
        (case split_close [] cs of
           None \<Rightarrow> Inl TemplateSyntaxError
         | Some (e, rest) \<Rightarrow>
             (case expression e of
                Inl err \<Rightarrow> Inl err
              | Inr x \<Rightarrow>
                  (case parse_nodes [] rest of
                     Inl err \<Rightarrow> Inl err
                   | Inr ns \<Rightarrow> Inr (flush acc (Name x # ns)))))
      else if c = CHR ''{'' \<and> (d = CHR ''%'' \<or> d = CHR ''#'') then Inl NotModelled
      else parse_nodes (c # acc) (d # cs))"
  by pat_completeness auto
termination
  by (relation "measure (\<lambda>(acc, s). length s)") (auto dest: split_close_length)

fun render_nodes :: "undefined_class \<Rightarrow> node list \<Rightarrow> pydict \<Rightarrow> py_error + string" where
  "render_nodes u [] vars = Inr []"
| "render_nodes u (TemplateData s # ns) vars =
     (case render_nodes u ns vars of Inl err \<Rightarrow> Inl err | Inr r \<Rightarrow> Inr (s @ r))"
| "render_nodes u (Name x # ns) vars =
     (case map_of vars x of
        None \<Rightarrow>
          (case u of
             StrictUndefined \<Rightarrow> Inl (UndefinedError x)
           | Undefined \<Rightarrow> render_nodes u ns vars)
      | Some (PStr s) \<Rightarrow>
          (case render_nodes u ns vars of Inl err \<Rightarrow> Inl err | Inr r \<Rightarrow> Inr (s @ r))
      | Some _ \<Rightarrow> Inl NotModelled)"

fun names :: "node list \<Rightarrow> string list" where
  "names [] = []"
| "names (TemplateData s # ns) = names ns"
| "names (Name x # ns) = x # names ns"

text \<open>\<^verbatim>\<open>os.path.join\<close> of two components.\<close>

definition path_join :: "string \<Rightarrow> string \<Rightarrow> string" where
  "path_join a b =
     (if b \<noteq> [] \<and> hd b = CHR ''/'' then b
      else if a = [] \<or> last a = CHR ''/'' then a @ b
      else a @ ''/'' @ b)"

definition mini_jinja :: "(string \<times> string) list \<Rightarrow> (template_obj, node list) jinja" where
  "mini_jinja files =
     \<lparr>Template = (\<lambda>src. case parse_nodes [] src of
                       Inl err \<Rightarrow> Inl err
                     | Inr ns \<Rightarrow> Inr \<lparr>t_env = Environment Undefined, t_nodes = ns\<rparr>),
      render = (\<lambda>t vars. case t_env t of Environment u \<Rightarrow> render_nodes u (t_nodes t) vars),
      parse = (\<lambda>env src. parse_nodes [] src),
      find_undeclared_variables = names,
      from_string = (\<lambda>env ast. \<lparr>t_env = env, t_nodes = ast\<rparr>),
      get_template = (\<lambda>dir name. case map_of files (path_join dir name) of
                       None \<Rightarrow> Inl TemplateNotFound
                     | Some src \<Rightarrow>
                         (case parse_nodes [] src of
                            Inl err \<Rightarrow> Inl err
                          | Inr ns \<Rightarrow>
                              Inr \<lparr>t_env = Environment StrictUndefined, t_nodes = ns\<rparr>))\<rparr>"

section \<open>TagCandidate\<close>

record TagCandidate =
  template :: string
  selectors :: "string list"
  negate :: bool
  only_primary :: bool

text \<open>Python's truth value of the \<open>select\<close> argument: \<open>None\<close> and the empty string
  are false.\<close>

definition truthy_str :: "string option \<Rightarrow> bool" where
  "truthy_str select = (case select of None \<Rightarrow> False | Some s \<Rightarrow> s \<noteq> [])"

text \<open>
  \<^verbatim>\<open>
  for selector in self.selectors:
      if re.search(selector, select):
          return not self.negate
  return self.negate
  \<close>
  \<open>re_search\<close> stands for the library's \<^verbatim>\<open>re.search(pattern, string)\<close> read as a
  truth value, on patterns that compile.
\<close>

fun selectors_loop :: "(string \<Rightarrow> string \<Rightarrow> bool) \<Rightarrow> string list \<Rightarrow> string \<Rightarrow> bool \<Rightarrow> bool" where
  "selectors_loop re_search [] select neg = neg"
| "selectors_loop re_search (selector # rest) select neg =
     (if re_search selector select then \<not> neg
      else selectors_loop re_search rest select neg)"

text \<open>
  \<^verbatim>\<open>
  def selected(self, select=None, primary=False):
      if primary or (primary == self.only_primary):
          if select and self.selectors:
              (the loop above)
          else:
              return not self.negate
      else:
          return False
  \<close>
\<close>

definition selected ::
  "(string \<Rightarrow> string \<Rightarrow> bool) \<Rightarrow> TagCandidate \<Rightarrow> string option \<Rightarrow> bool \<Rightarrow> bool" where
  "selected re_search c select primary =
     (if primary \<or> (primary = only_primary c) then
        (if truthy_str select \<and> selectors c \<noteq> [] then
           selectors_loop re_search (selectors c) (the select) (negate c)
         else \<not> negate c)
      else False)"

text \<open>\<^verbatim>\<open>def render(self, variables={}):
      return Utils.render_template(Template(self.template), variables)\<close>\<close>

definition TagCandidate_render ::
  "('t, 'a) jinja \<Rightarrow> nat \<Rightarrow> TagCandidate \<Rightarrow> pydict \<Rightarrow> (py_error + string) option" where
  "TagCandidate_render J n c variables =
     (case Template J (template c) of
        Inl err \<Rightarrow> Some (Inl err)
      | Inr t \<Rightarrow> render_template J n t variables None)"

text \<open>
  \<^verbatim>\<open>TagCandidate(**tag)\<close> for a tag definition of the manifest or of a variant's
  config file: a keyword other than the four parameters, or no \<^verbatim>\<open>template\<close>, is a
  \<open>TypeError\<close>; the defaults are those of \<^verbatim>\<open>__init__\<close>.
\<close>

definition str_list :: "pyval \<Rightarrow> string list option" where
  "str_list v =
     (case v of
        PList xs \<Rightarrow>
          if list_all (\<lambda>x. case x of PStr _ \<Rightarrow> True | _ \<Rightarrow> False) xs
          then Some (map (\<lambda>x. case x of PStr s \<Rightarrow> s | _ \<Rightarrow> []) xs)
          else None
      | _ \<Rightarrow> None)"

definition bool_field :: "pydict \<Rightarrow> string \<Rightarrow> bool option" where
  "bool_field tag k =
     (case map_of tag k of
        None \<Rightarrow> Some False
      | Some (PBool b) \<Rightarrow> Some b
      | Some _ \<Rightarrow> None)"

definition TagCandidate_init :: "pydict \<Rightarrow> py_error + TagCandidate" where
  "TagCandidate_init tag =
     (if \<not> list_all (\<lambda>k. k \<in> set [''template'', ''selectors'', ''only_primary'', ''negate''])
            (keys tag)
      then Inl TypeError
      else
        (case map_of tag ''template'' of
           None \<Rightarrow> Inl TypeError
         | Some (PStr t) \<Rightarrow>
             (case (case map_of tag ''selectors'' of None \<Rightarrow> Some [] | Some v \<Rightarrow> str_list v) of
                None \<Rightarrow> Inl NotModelled
              | Some sels \<Rightarrow>
                  (case (bool_field tag ''only_primary'', bool_field tag ''negate'') of
                     (Some op, Some ng) \<Rightarrow>
                       Inr \<lparr>template = t, selectors = sels, negate = ng, only_primary = op\<rparr>
                   | _ \<Rightarrow> Inl NotModelled))
         | Some _ \<Rightarrow> Inl NotModelled))"

section \<open>The world outside\<close>

text \<open>
  What the program reads from the file system, the clock and the container engine, and
  the library functions it calls on them, are parameters:
  \<^item> \<open>isdir\<close> is \<^verbatim>\<open>os.path.isdir\<close>;
  \<^item> \<open>load_yaml p\<close> is what \<^verbatim>\<open>yaml.load\<close> gives for the file at \<open>p\<close>, a mapping as a
    rule and \<open>PNone\<close> for an empty document; \<open>None\<close> when the file is missing,
    unreadable or malformed (the constructor goes on with an empty mapping in each of
    these cases; it prints the parser's message in the last);
  \<^item> \<open>read_file p\<close> is the content of the file at \<open>p\<close>, \<open>None\<close> when it does not exist;
  \<^item> \<open>exclude_paths\<close> is \<^verbatim>\<open>docker.utils.build.exclude_paths(root, patterns)\<close>;
  \<^item> \<open>api_build\<close>, \<open>api_push\<close> give the events the engine streams back,
    \<open>api_get_image\<close> and \<open>images_get\<close> the exception the call raises, if any;
  \<^item> \<open>now i\<close> is the formatted clock reading taken for the \<open>i\<close>-th build;
  \<^item> \<open>py_str\<close> and \<open>str_error\<close> are Python's \<^verbatim>\<open>str()\<close> on values and exceptions.
\<close>

datatype entry = Member string string | DockerfileMember string

type_synonym archive = "entry list"

record world =
  isdir :: "string \<Rightarrow> bool"
  load_yaml :: "string \<Rightarrow> pyval option"
  read_file :: "string \<Rightarrow> string option"
  exclude_paths :: "string \<Rightarrow> string list \<Rightarrow> string set"
  api_build :: "archive \<Rightarrow> event list"
  api_push :: "string \<Rightarrow> event list"
  api_get_image :: "string \<Rightarrow> py_error option"
  images_get :: "string \<Rightarrow> py_error option"
  now :: "nat \<Rightarrow> string"
  py_str :: "pyval \<Rightarrow> string"
  str_error :: "py_error \<Rightarrow> string"

section \<open>Strings\<close>

definition newline :: char where
  "newline = CHR 0x0A"

text \<open>\<^verbatim>\<open>s.splitlines(True)\<close> and \<^verbatim>\<open>s.splitlines()\<close>, for lines that end in a line feed.\<close>

fun splitlines_keepends :: "string \<Rightarrow> string \<Rightarrow> string list" where
  "splitlines_keepends acc [] = (if acc = [] then [] else [rev acc])"
| "splitlines_keepends acc (c # cs) =
     (if c = newline then rev (c # acc) # splitlines_keepends [] cs
      else splitlines_keepends (c # acc) cs)"

definition splitlines :: "string \<Rightarrow> string list" where
  "splitlines s =
     map (\<lambda>l. if l \<noteq> [] \<and> last l = newline then butlast l else l) (splitlines_keepends [] s)"

text \<open>\<^verbatim>\<open>sep.join(xs)\<close>.\<close>

fun join :: "string \<Rightarrow> string list \<Rightarrow> string" where
  "join sep [] = []"
| "join sep [x] = x"
| "join sep (x # y # xs) = x @ sep @ join sep (y # xs)"

text \<open>\<^verbatim>\<open>s.rstrip()\<close>, for the whitespace of ASCII.\<close>

definition whitespace :: string where
  "whitespace = [CHR '' '', CHR 0x09, CHR 0x0A, CHR 0x0B, CHR 0x0C, CHR 0x0D,
                 CHR 0x1C, CHR 0x1D, CHR 0x1E, CHR 0x1F]"

definition rstrip :: "string \<Rightarrow> string" where
  "rstrip s = rev (dropWhile (\<lambda>c. c \<in> set whitespace) (rev s))"

section \<open>BuildVariant\<close>

record 't BuildVariant =
  config_file :: "string option"
  directory :: string
  template_file :: string
  tags :: "(string \<times> TagCandidate) list"
  variables :: pydict
  bv_template :: "'t option"

definition dict_list :: "pyval \<Rightarrow> pydict list option" where
  "dict_list v =
     (case v of
        PList xs \<Rightarrow>
          if list_all is_dict xs
          then Some (map (\<lambda>x. case x of PDict d \<Rightarrow> d | _ \<Rightarrow> []) xs)
          else None
      | _ \<Rightarrow> None)"

text \<open>
  \<^verbatim>\<open>
  self.tags = {}
  for tag in tags + config['tags']:
      self.tags[tag['template']] = TagCandidate(**tag)
  \<close>
\<close>

fun tags_loop ::
  "(string \<times> TagCandidate) list \<Rightarrow> pydict list \<Rightarrow> py_error + (string \<times> TagCandidate) list" where
  "tags_loop self_tags [] = Inr self_tags"
| "tags_loop self_tags (tag # rest) =
     (case TagCandidate_init tag of
        Inl err \<Rightarrow> Inl err
      | Inr c \<Rightarrow> tags_loop (dict_set self_tags (template c) c) rest)"

text \<open>
  \<^verbatim>\<open>
  def __init__(self, directory='.', config_file=None, template=None,
               template_file='Dockerfile.j2', variables={}, tags=[]):
      data = {}
      (data = yaml.load(open(os.path.join(directory, config_file))), when there is one)
      jinja = Environment(loader=FileSystemLoader(directory), undefined=StrictUndefined)
      config = Utils.merge_dict({'variables': variables, 'template_file': template_file,
                                 'tags': []}, data)
      config['tags'] = [Utils.merge_dict(tag, {'only_primary': False})
                        for tag in config['tags']]
      self.template_file = config['template_file']
      (the loop above)
      self.variables = config['variables']
      try:
          self.template = jinja.get_template(config['template_file'])
      except TemplateNotFound:
          self.template = template
  \<close>
  \<open>config_data\<close> is \<open>data\<close> as \<^verbatim>\<open>merge_dict\<close> receives it. A config file that holds
  no document loads as \<^verbatim>\<open>None\<close>, and the loop of \<^verbatim>\<open>merge_dict\<close> over it is a
  \<open>TypeError\<close>, outside the \<^verbatim>\<open>try\<close> block.
\<close>

definition config_data :: "world \<Rightarrow> string \<Rightarrow> string option \<Rightarrow> py_error + pydict" where
  "config_data W dir cfg =
     (case cfg of
        None \<Rightarrow> Inr []
      | Some f \<Rightarrow>
          (case load_yaml W (path_join dir f) of
             None \<Rightarrow> Inr []
           | Some (PDict d) \<Rightarrow> Inr d
           | Some PNone \<Rightarrow> Inl TypeError
           | Some _ \<Rightarrow> Inl NotModelled))"

definition forced_tags :: "pydict list \<Rightarrow> pydict list" where
  "forced_tags cts = map (\<lambda>tag. merge_dict tag [(''only_primary'', PBool False)] []) cts"

definition BuildVariant_init ::
  "('t, 'a) jinja \<Rightarrow> world \<Rightarrow> string \<Rightarrow> string option \<Rightarrow> 't option \<Rightarrow> string \<Rightarrow> pydict
     \<Rightarrow> pydict list \<Rightarrow> py_error + 't BuildVariant" where
  "BuildVariant_init J W dir cfg tmpl tfile vars tgs =
     (case config_data W dir cfg of
        Inl err \<Rightarrow> Inl err
      | Inr data \<Rightarrow>
      let config = merge_dict
                     [(''variables'', PDict vars), (''template_file'', PStr tfile),
                      (''tags'', PList [])] data []
      in case map_of config ''tags'' of
           None \<Rightarrow> Inl (KeyError ''tags'')
         | Some tv \<Rightarrow>
             (case dict_list tv of
                None \<Rightarrow> Inl NotModelled
              | Some cts \<Rightarrow>
                  (case map_of config ''template_file'' of
                     Some (PStr tf) \<Rightarrow>
                       (case tags_loop [] (tgs @ forced_tags cts) of
                          Inl err \<Rightarrow> Inl err
                        | Inr tg \<Rightarrow>
                            (case map_of config ''variables'' of
                               Some (PDict vs) \<Rightarrow>
                                 (case get_template J dir tf of
                                    Inr t \<Rightarrow>
                                      Inr \<lparr>config_file = cfg, directory = dir,
                                           template_file = tf, tags = tg, variables = vs,
                                           bv_template = Some t\<rparr>
                                  | Inl TemplateNotFound \<Rightarrow>
                                      Inr \<lparr>config_file = cfg, directory = dir,
                                           template_file = tf, tags = tg, variables = vs,
                                           bv_template = tmpl\<rparr>
                                  | Inl err \<Rightarrow> Inl err)
                             | _ \<Rightarrow> Inl NotModelled))
                   | _ \<Rightarrow> Inl NotModelled)))"

text \<open>
  \<^verbatim>\<open>
  def files(self,exclude=[]):
      dockerignore = os.path.join(self.directory, '.dockerignore')
      _exclude = exclude
      if self.config_file:
          _exclude.append(self.config_file)
      else:
          _exclude.append('image-build.yml')
      _exclude.append(self.template_file)
      if os.path.exists(dockerignore):
          with open(dockerignore, 'r') as f:
              _exclude += list(filter(bool, f.read().splitlines()))
      return sorted(exclude_paths(self.directory, _exclude))
  \<close>
  \<open>_exclude\<close> is the caller's list object itself, and \<^verbatim>\<open>append\<close> and \<^verbatim>\<open>+=\<close> change
  it in place. \<open>files W v exclude\<close> takes the content of that object at the call and
  returns, with the result, its content after the call; the caller stores it back into
  the object it passed (its own list, or the one default list of the function when it
  passed none).
\<close>

definition files :: "world \<Rightarrow> 't BuildVariant \<Rightarrow> string list \<Rightarrow> string list \<times> string list" where
  "files W v exclude =
     (let dockerignore = path_join (directory v) ''.dockerignore'';
          e1 = exclude @ [case config_file v of
                            Some f \<Rightarrow> if f \<noteq> [] then f else ''image-build.yml''
                          | None \<Rightarrow> ''image-build.yml''];
          e2 = e1 @ [template_file v];
          e3 = (case read_file W dockerignore of
                  Some content \<Rightarrow> e2 @ filter (\<lambda>l. l \<noteq> []) (splitlines content)
                | None \<Rightarrow> e2)
      in (sorted_list_of_set (exclude_paths W (directory v) e3), e3))"

text \<open>
  \<^verbatim>\<open>
  def render_dockerfile(self, variables):
      return Utils.render_template(self.template,
                                   Utils.merge_dict(self.variables, variables))
  \<close>
  A variant without a template (no template file, no fallback) has \<open>None\<close> there, and
  \<^verbatim>\<open>None.render\<close> is an \<open>AttributeError\<close>.
\<close>

definition render_dockerfile ::
  "('t, 'a) jinja \<Rightarrow> nat \<Rightarrow> 't BuildVariant \<Rightarrow> pydict \<Rightarrow> (py_error + string) option" where
  "render_dockerfile J n v vars =
     (case bv_template v of
        None \<Rightarrow> Some (Inl AttributeError)
      | Some t \<Rightarrow> render_template J n t (merge_dict (variables v) vars []) None)"

text \<open>
  \<^verbatim>\<open>
  def render_tags(self, variables, select=None, primary=False):
      tags = []
      for tag in self.tags:
          if self.tags[tag].selected(select, primary):
              tags.append(self.tags[tag].render(
                  Utils.merge_dict(self.variables, variables)))
      return tags
  \<close>
\<close>

fun render_tags_loop ::
  "('t, 'a) jinja \<Rightarrow> (string \<Rightarrow> string \<Rightarrow> bool) \<Rightarrow> nat \<Rightarrow> pydict \<Rightarrow> pydict \<Rightarrow> string option
     \<Rightarrow> bool \<Rightarrow> (string \<times> TagCandidate) list \<Rightarrow> string list \<Rightarrow> (py_error + string list) option" where
  "render_tags_loop J rs n self_vars vars sel primary [] acc = Some (Inr acc)"
| "render_tags_loop J rs n self_vars vars sel primary ((tag, c) # rest) acc =
     (if selected rs c sel primary then
        (case TagCandidate_render J n c (merge_dict self_vars vars []) of
           None \<Rightarrow> None
         | Some (Inl err) \<Rightarrow> Some (Inl err)
         | Some (Inr s) \<Rightarrow> render_tags_loop J rs n self_vars vars sel primary rest (acc @ [s]))
      else render_tags_loop J rs n self_vars vars sel primary rest acc)"

definition render_tags ::
  "('t, 'a) jinja \<Rightarrow> (string \<Rightarrow> string \<Rightarrow> bool) \<Rightarrow> nat \<Rightarrow> 't BuildVariant \<Rightarrow> pydict
     \<Rightarrow> string option \<Rightarrow> bool \<Rightarrow> (py_error + string list) option" where
  "render_tags J rs n v vars sel primary =
     render_tags_loop J rs n (variables v) vars sel primary (tags v) []"

section \<open>Build\<close>

record 't Build =
  name :: string
  namespace :: string
  source :: pydict
  root_dir :: string
  variants_dir :: string
  variants :: "(string \<times> 't BuildVariant) list"

text \<open>
  \<^verbatim>\<open>
  for name in self.source['tags']:
      variant_dir = os.path.join(self.variants_dir, name)
      if os.path.isdir(variant_dir):
          self.variants[name] = BuildVariant(directory=variant_dir,
              config_file='image-build.yml', template=self.variants['.'].template,
              variables=variables, tags=tags)
  \<close>
\<close>

fun variants_loop ::
  "('t, 'a) jinja \<Rightarrow> world \<Rightarrow> string \<Rightarrow> pydict \<Rightarrow> pydict list
     \<Rightarrow> (string \<times> 't BuildVariant) list \<Rightarrow> string list \<Rightarrow> py_error + (string \<times> 't BuildVariant) list" where
  "variants_loop J W vdir vars tgs vs [] = Inr vs"
| "variants_loop J W vdir vars tgs vs (nm # rest) =
     (let variant_dir = path_join vdir nm in
      if isdir W variant_dir then
        (case map_of vs ''.'' of
           None \<Rightarrow> Inl (KeyError ''.'')
         | Some root \<Rightarrow>
             (case BuildVariant_init J W variant_dir (Some ''image-build.yml'')
                     (bv_template root) ''Dockerfile.j2'' vars tgs of
                Inl err \<Rightarrow> Inl err
              | Inr v \<Rightarrow> variants_loop J W vdir vars tgs (dict_set vs nm v) rest))
      else variants_loop J W vdir vars tgs vs rest)"

text \<open>
  \<^verbatim>\<open>
  def __init__(self, name, source={}, root_dir='.', variants_dir='variants',
               namespace='image-build', template_file='Dockerfile.j2', variables={},
               tags=[{'template': 'latest'}]):
      self.name = name
      self.namespace = namespace
      self.source = Utils.merge_dict({'name': self.name, 'tags': ['latest']}, source)
      if 'primary' not in self.source:
          self.source['primary'] = self.source['tags'][0]
      self.root_dir = root_dir
      self.variants_dir = os.path.join(self.root_dir, variants_dir)
      self.variants = {}
      self.variants['.'] = BuildVariant(
          template_file=template_file, variables=variables, tags=tags)
      (the loop above)
  \<close>
\<close>

definition Build_init ::
  "('t, 'a) jinja \<Rightarrow> world \<Rightarrow> string \<Rightarrow> pydict \<Rightarrow> string \<Rightarrow> string \<Rightarrow> string \<Rightarrow> string
     \<Rightarrow> pydict \<Rightarrow> pydict list \<Rightarrow> py_error + 't Build" where
  "Build_init J W nm src rdir vdir ns tfile vars tgs =
     (let source1 = merge_dict [(''name'', PStr nm), (''tags'', PList [PStr ''latest''])] src []
      in case (if ''primary'' \<in> set (keys source1) then Inr source1
               else (case map_of source1 ''tags'' of
                       Some (PList (t # ts)) \<Rightarrow> Inr (dict_set source1 ''primary'' t)
                     | Some (PList []) \<Rightarrow> Inl IndexError
                     | _ \<Rightarrow> Inl NotModelled)) of
           Inl err \<Rightarrow> Inl err
         | Inr source2 \<Rightarrow>
             (case BuildVariant_init J W ''.'' None None tfile vars tgs of
                Inl err \<Rightarrow> Inl err
              | Inr root \<Rightarrow>
                  (case (case map_of source2 ''tags'' of
                           Some v \<Rightarrow> str_list v
                         | None \<Rightarrow> None) of
                     None \<Rightarrow> Inl NotModelled
                   | Some stags \<Rightarrow>
                       (case variants_loop J W (path_join rdir vdir) vars tgs
                               [(''.'', root)] stags of
                          Inl err \<Rightarrow> Inl err
                        | Inr vs \<Rightarrow>
                            Inr \<lparr>name = nm, namespace = ns, source = source2, root_dir = rdir,
                                 variants_dir = path_join rdir vdir, variants = vs\<rparr>))))"

text \<open>The default of the \<^verbatim>\<open>tags\<close> parameter of \<^verbatim>\<open>Build.__init__\<close>.\<close>

definition default_tags :: "pydict list" where
  "default_tags = [[(''template'', PStr ''latest'')]]"

section \<open>Builder\<close>

text \<open>
  What the run does to the world, in order: lines printed, and calls to the engine.
\<close>

datatype effect =
    Print string
  | ApiBuild archive
  | ImagesGet string
  | ImageTag string string string
  | ApiPush string
  | ApiGetImage string

record 't Builder =
  self_select :: "string option"
  push :: bool
  save :: bool
  dry_run :: bool
  ignore_empty :: bool
  builds :: "'t Build list"

text \<open>
  The objects that calls of \<^verbatim>\<open>build\<close> change in place: \<^verbatim>\<open>self.variables\<close> (the
  loop's \<^verbatim>\<open>build_variables\<close> is another name of the same dict), the list
  \<^verbatim>\<open>root_excludes\<close> of \<^verbatim>\<open>build\<close>, the one list that is the default of the parameter
  \<^verbatim>\<open>exclude\<close> of \<^verbatim>\<open>BuildVariant.files\<close>, and the effects so far.
\<close>

record builder_state =
  self_variables :: pydict
  root_excludes :: "string list"
  files_default :: "string list"
  out :: "effect list"

text \<open>Sequencing of steps that may raise or not return: the state is kept either way.\<close>

definition and_then ::
  "'s \<times> (py_error + 'x) option \<Rightarrow> ('s \<Rightarrow> 'x \<Rightarrow> 's \<times> (py_error + 'y) option)
     \<Rightarrow> 's \<times> (py_error + 'y) option" where
  "and_then m f =
     (case m of
        (s, None) \<Rightarrow> (s, None)
      | (s, Some (Inl err)) \<Rightarrow> (s, Some (Inl err))
      | (s, Some (Inr x)) \<Rightarrow> f s x)"

text \<open>\<^verbatim>\<open>Utils.tar(root, files, fileobj)\<close> and \<^verbatim>\<open>Utils.tar_dockerfile\<close>: the members of
  the archive.\<close>

definition tar :: "string \<Rightarrow> string list \<Rightarrow> archive option \<Rightarrow> archive" where
  "tar root fs fileobj = (case fileobj of None \<Rightarrow> [] | Some c \<Rightarrow> c) @ map (Member root) fs"

definition tar_dockerfile :: "string \<Rightarrow> archive \<Rightarrow> archive" where
  "tar_dockerfile dockerfile c = c @ [DockerfileMember dockerfile]"

text \<open>
  \<^verbatim>\<open>re.search(r'Successfully built ([0-9a-f]+)', s)\<close>: group 1 of the leftmost match.
\<close>

definition hex_chars :: string where
  "hex_chars = ''0123456789abcdef''"

fun search_success :: "string \<Rightarrow> string option" where
  "search_success [] = None"
| "search_success (c # cs) =
     (let s = c # cs;
          p = ''Successfully built '';
          hexes = takeWhile (\<lambda>x. x \<in> set hex_chars) (drop (length p) s)
      in if take (length p) s = p \<and> hexes \<noteq> [] then Some hexes else search_success cs)"

text \<open>
  \<^verbatim>\<open>
  for line in self.builder.api.build(fileobj=dockerfileobj, rm=True, custom_context=True):
      response.append(line)
      event = list(json_stream([line]))[0]
      if 'stream' in event:
          print("    " + event['stream'].rstrip())
      elif 'status' in event:
          print("    " + event['status'].rstrip())
      elif 'error' in event:
          raise BuildError(event['error'], json_stream(response))
  \<close>
\<close>

definition field :: "event \<Rightarrow> string \<Rightarrow> string" where
  "field ev k = (case map_of ev k of Some s \<Rightarrow> s | None \<Rightarrow> [])"

fun build_events_loop :: "event list \<Rightarrow> effect list \<Rightarrow> effect list \<times> py_error option" where
  "build_events_loop [] eff = (eff, None)"
| "build_events_loop (ev # rest) eff =
     (if ''stream'' \<in> set (keys ev) then
        build_events_loop rest (eff @ [Print (''    '' @ rstrip (field ev ''stream''))])
      else if ''status'' \<in> set (keys ev) then
        build_events_loop rest (eff @ [Print (''    '' @ rstrip (field ev ''status''))])
      else if ''error'' \<in> set (keys ev) then
        (eff, Some (BuildError (Msg (field ev ''error''))))
      else build_events_loop rest eff)"

text \<open>
  \<^verbatim>\<open>
  events = list(json_stream(response))
  if not events:
      raise BuildError('Unknown build error',events)
  event = events[-1]
  if 'stream' in event:
      match = re.search(r'Successfully built ([0-9a-f]+)', event.get('stream', ''))
      if match:
          image_id = match.group(1)
  if image_id:
      return image_id
  raise BuildError(event, events)
  \<close>
  The local \<^verbatim>\<open>image_id\<close> is assigned in one place only; \<open>None\<close> below is the local
  without a value, and reading it then is Python's \<open>UnboundLocalError\<close>.
\<close>

definition build_image ::
  "world \<Rightarrow> archive \<Rightarrow> effect list \<Rightarrow> effect list \<times> (py_error + string)" where
  "build_image W dockerfileobj eff =
     (let events = api_build W dockerfileobj in
      case build_events_loop events (eff @ [Print ''  Docker build output:'', ApiBuild dockerfileobj]) of
        (eff', Some err) \<Rightarrow> (eff', Inl err)
      | (eff', None) \<Rightarrow>
          if events = [] then (eff', Inl (BuildError (Msg ''Unknown build error'')))
          else
            (let ev = last events;
                 image_id = (if ''stream'' \<in> set (keys ev)
                             then search_success (field ev ''stream'') else None)
             in case image_id of
                  None \<Rightarrow> (eff', Inl (UnboundLocalError ''image_id''))
                | Some i \<Rightarrow>
                    if i \<noteq> [] then (eff', Inr i) else (eff', Inl (BuildError (Ev ev)))))"

text \<open>
  \<^verbatim>\<open>
  def push_image(self, repository, tag=None):
      print("  Docker push output:")
      for line in self.builder.api.push(repository=repository, tag=tag, stream=True):
          event = list(json_stream([line]))[0]
          if 'status' in event:
              print("    " + event['status'])
          elif 'error' in event:
              raise DockerException(event['error'])
  \<close>
\<close>

fun push_events_loop :: "event list \<Rightarrow> effect list \<Rightarrow> effect list \<times> py_error option" where
  "push_events_loop [] eff = (eff, None)"
| "push_events_loop (ev # rest) eff =
     (if ''status'' \<in> set (keys ev) then
        push_events_loop rest (eff @ [Print (''    '' @ field ev ''status'')])
      else if ''error'' \<in> set (keys ev) then
        (eff, Some (DockerException (field ev ''error'')))
      else push_events_loop rest eff)"

definition push_image :: "world \<Rightarrow> string \<Rightarrow> effect list \<Rightarrow> effect list \<times> py_error option" where
  "push_image W repository eff =
     push_events_loop (api_push W repository)
       (eff @ [Print ''  Docker push output:'', ApiPush repository])"

text \<open>\<^verbatim>\<open>save_image\<close>: the image is fetched from the engine and written to a file.\<close>

definition save_image :: "world \<Rightarrow> string \<Rightarrow> effect list \<Rightarrow> effect list \<times> py_error option" where
  "save_image W repository eff = (eff @ [ApiGetImage repository], api_get_image W repository)"

text \<open>
  Lines 344 to 348 of \<^verbatim>\<open>build\<close>:
  \<^verbatim>\<open>
  build_variables = self.variables
  primary = source_tag == build.source['primary']
  build_variables['_source'] = { 'name': build.source['name'], 'tag': source_tag,
                                 'primary': primary }
  build_variables['_dest'] = { 'name': build.name, 'namespace': build.namespace }
  build_variables['_timestamp'] = timestamp
  \<close>
  The first line copies nothing: the three assignments write into \<^verbatim>\<open>self.variables\<close>.
\<close>

definition inject ::
  "'t Build \<Rightarrow> string \<Rightarrow> string \<Rightarrow> pydict \<Rightarrow> py_error + (bool \<times> pydict)" where
  "inject build source_tag timestamp build_variables =
     (case map_of (source build) ''primary'' of
        None \<Rightarrow> Inl (KeyError ''primary'')
      | Some p \<Rightarrow>
          (case map_of (source build) ''name'' of
             None \<Rightarrow> Inl (KeyError ''name'')
           | Some nm \<Rightarrow>
               (let primary = py_eq (PStr source_tag) p;
                    v1 = dict_set build_variables ''_source''
                           (PDict [(''name'', nm), (''tag'', PStr source_tag),
                                   (''primary'', PBool primary)]);
                    v2 = dict_set v1 ''_dest''
                           (PDict [(''name'', PStr (name build)),
                                   (''namespace'', PStr (namespace build))]);
                    v3 = dict_set v2 ''_timestamp'' (PStr timestamp)
                in Inr (primary, v3))))"

text \<open>\<^verbatim>\<open>build_variables['_dest']['tags'] = tags\<close>\<close>

definition set_dest_tags :: "pydict \<Rightarrow> string list \<Rightarrow> pydict" where
  "set_dest_tags build_variables ts =
     (case map_of build_variables ''_dest'' of
        Some (PDict d) \<Rightarrow>
          dict_set build_variables ''_dest'' (PDict (dict_set d ''tags'' (PList (map PStr ts))))
      | _ \<Rightarrow> build_variables)"

text \<open>
  Lines 349 to 357, the root variant:
  \<^verbatim>\<open>
  tags = build.variants['.'].render_tags(build_variables, self.select, primary)
  build_variables['_dest']['tags'] = tags
  dockerfile = build.variants['.'].render_dockerfile(build_variables)
  root_files = build.variants['.'].files(root_excludes)
  if not self.dry_run:
      context = Utils.tar(build.variants['.'].directory,root_files)
  \<close>
  The result holds the locals \<open>tags\<close>, \<open>dockerfile\<close>, \<open>root_files\<close> and \<open>context\<close>
  (\<open>None\<close>: not assigned).
\<close>

definition root_phase ::
  "('t, 'a) jinja \<Rightarrow> (string \<Rightarrow> string \<Rightarrow> bool) \<Rightarrow> world \<Rightarrow> nat \<Rightarrow> 't Builder \<Rightarrow> 't Build \<Rightarrow> bool
     \<Rightarrow> builder_state
     \<Rightarrow> builder_state \<times> (py_error + (string list \<times> string \<times> string list \<times> archive option)) option" where
  "root_phase J rs W n B build primary st =
     (case map_of (variants build) ''.'' of
        None \<Rightarrow> (st, Some (Inl (KeyError ''.'')))
      | Some root \<Rightarrow>
          and_then (st, render_tags J rs n root (self_variables st) (self_select B) primary)
            (\<lambda>st ts.
               let st1 = st\<lparr>self_variables := set_dest_tags (self_variables st) ts\<rparr> in
               and_then (st1, render_dockerfile J n root (self_variables st1))
                 (\<lambda>st1 dockerfile.
                    let (root_files, rx) = files W root (root_excludes st1);
                        st2 = st1\<lparr>root_excludes := rx\<rparr>;
                        ctx = (if \<not> dry_run B
                               then Some (tar (directory root) root_files None) else None)
                    in (st2, Some (Inr (ts, dockerfile, root_files, ctx))))))"

text \<open>
  Lines 359 to 371, the override variant of the source tag, when there is one:
  \<^verbatim>\<open>
  files = []
  if source_tag in build.variants:
      tags = build.variants[source_tag].render_tags(build_variables, self.select, primary)
      build_variables['_dest']['tags'] = tags
      build_variables['_base'] = dockerfile
      dockerfile = build.variants[source_tag].render_dockerfile(build_variables)
      files = build.variants[source_tag].files()
      if not self.dry_run:
          context = Utils.tar(build.variants[source_tag].directory,files,context)
  if not self.dry_run:
      context = Utils.tar_dockerfile(dockerfile,context)
  \<close>
  \<^verbatim>\<open>files()\<close> is called without an argument: it works on the default list.
\<close>

definition variant_phase ::
  "('t, 'a) jinja \<Rightarrow> (string \<Rightarrow> string \<Rightarrow> bool) \<Rightarrow> world \<Rightarrow> nat \<Rightarrow> 't Builder \<Rightarrow> 't Build \<Rightarrow> string
     \<Rightarrow> bool \<Rightarrow> string list \<Rightarrow> string \<Rightarrow> archive option \<Rightarrow> builder_state
     \<Rightarrow> builder_state \<times> (py_error + (string list \<times> string \<times> string list \<times> archive option)) option" where
  "variant_phase J rs W n B build source_tag primary ts dockerfile ctx st =
     and_then
       (case map_of (variants build) source_tag of
          None \<Rightarrow> (st, Some (Inr (ts, dockerfile, [], ctx)))
        | Some v \<Rightarrow>
            and_then (st, render_tags J rs n v (self_variables st) (self_select B) primary)
              (\<lambda>st ts'.
                 let st1 = st\<lparr>self_variables :=
                             dict_set (set_dest_tags (self_variables st) ts') ''_base''
                               (PStr dockerfile)\<rparr> in
                 and_then (st1, render_dockerfile J n v (self_variables st1))
                   (\<lambda>st1 dockerfile'.
                      let (fs, fd) = files W v (files_default st1);
                          st2 = st1\<lparr>files_default := fd\<rparr>;
                          ctx' = (if \<not> dry_run B then Some (tar (directory v) fs ctx) else ctx)
                      in (st2, Some (Inr (ts', dockerfile', fs, ctx'))))))
       (\<lambda>st (ts', dockerfile', fs, ctx').
          (st, Some (Inr (ts', dockerfile', fs,
             if \<not> dry_run B
             then (case ctx' of None \<Rightarrow> None | Some c \<Rightarrow> Some (tar_dockerfile dockerfile' c))
             else ctx'))))"

text \<open>
  Lines 373 to 396:
  \<^verbatim>\<open>
  if self.dry_run:
      print("  Source: %s:%s" % (build.source['name'], source_tag))
      print("    Tags:")
      print('\n'.join('      ' + tag for tag in tags))
      print("    Base files:")
      print('\n'.join('      ' + f for f in root_files))
      print("    Variant files:")
      print('\n'.join('      ' + f for f in files))
      print('    Dockerfile:')
      print(''.join('      ' + line for line in dockerfile.splitlines(True)))
      print
  else:
      if len(tags) > 0:
          image_id = self.build_image(context)
          image = self.builder.images.get(image_id)
          for tag in tags:
              image.tag(repository, tag=tag)
          has_applicable_tags = True
      else:
          print("  No applicable destination tags for source tag %s, skipping build phase"
                % source_tag)
  \<close>
\<close>

definition dry_run_report ::
  "world \<Rightarrow> 't Build \<Rightarrow> string \<Rightarrow> string list \<Rightarrow> string list \<Rightarrow> string list \<Rightarrow> string
     \<Rightarrow> effect list" where
  "dry_run_report W build source_tag ts root_files fs dockerfile =
     [Print (''  Source: '' @
             (case map_of (source build) ''name'' of Some nm \<Rightarrow> py_str W nm | None \<Rightarrow> [])
             @ '':'' @ source_tag),
      Print ''    Tags:'',
      Print (join [newline] (map (\<lambda>t. ''      '' @ t) ts)),
      Print ''    Base files:'',
      Print (join [newline] (map (\<lambda>f. ''      '' @ f) root_files)),
      Print ''    Variant files:'',
      Print (join [newline] (map (\<lambda>f. ''      '' @ f) fs)),
      Print ''    Dockerfile:'',
      Print (concat (map (\<lambda>l. ''      '' @ l) (splitlines_keepends [] dockerfile)))]"

definition no_destination :: "string \<Rightarrow> effect" where
  "no_destination source_tag =
     Print (''  No applicable destination tags for source tag '' @ source_tag
            @ '', skipping build phase'')"

definition publish ::
  "world \<Rightarrow> 't Builder \<Rightarrow> 't Build \<Rightarrow> string \<Rightarrow> string \<Rightarrow> string list \<Rightarrow> string list
     \<Rightarrow> string list \<Rightarrow> string \<Rightarrow> archive option \<Rightarrow> bool \<Rightarrow> builder_state
     \<Rightarrow> builder_state \<times> (py_error + bool) option" where
  "publish W B build repository source_tag ts root_files fs dockerfile ctx has_applicable_tags st =
     (if dry_run B then
        (st\<lparr>out := out st @ dry_run_report W build source_tag ts root_files fs dockerfile\<rparr>,
         Some (Inr has_applicable_tags))
      else if length ts > 0 then
        (case ctx of
           None \<Rightarrow> (st, Some (Inl (UnboundLocalError ''context'')))
         | Some c \<Rightarrow>
             (case build_image W c (out st) of
                (eff, Inl err) \<Rightarrow> (st\<lparr>out := eff\<rparr>, Some (Inl err))
              | (eff, Inr image_id) \<Rightarrow>
                  (case images_get W image_id of
                     Some err \<Rightarrow> (st\<lparr>out := eff @ [ImagesGet image_id]\<rparr>, Some (Inl err))
                   | None \<Rightarrow>
                       (st\<lparr>out := eff @ [ImagesGet image_id]
                                    @ map (ImageTag image_id repository) ts\<rparr>,
                        Some (Inr True)))))
      else (st\<lparr>out := out st @ [no_destination source_tag]\<rparr>, Some (Inr has_applicable_tags)))"

text \<open>One round of \<^verbatim>\<open>for source_tag in build.source['tags']\<close>.\<close>

definition source_tag_iteration ::
  "('t, 'a) jinja \<Rightarrow> (string \<Rightarrow> string \<Rightarrow> bool) \<Rightarrow> world \<Rightarrow> nat \<Rightarrow> 't Builder \<Rightarrow> 't Build \<Rightarrow> string
     \<Rightarrow> string \<Rightarrow> string \<Rightarrow> bool \<Rightarrow> builder_state \<Rightarrow> builder_state \<times> (py_error + bool) option" where
  "source_tag_iteration J rs W n B build timestamp repository source_tag has_applicable_tags st =
     (case inject build source_tag timestamp (self_variables st) of
        Inl err \<Rightarrow> (st, Some (Inl err))
      | Inr (primary, build_variables) \<Rightarrow>
          and_then (root_phase J rs W n B build primary (st\<lparr>self_variables := build_variables\<rparr>))
            (\<lambda>st1 (ts, dockerfile, root_files, ctx).
               and_then (variant_phase J rs W n B build source_tag primary ts dockerfile ctx st1)
                 (\<lambda>st2 (ts', dockerfile', fs, ctx').
                    publish W B build repository source_tag ts' root_files fs dockerfile' ctx'
                      has_applicable_tags st2)))"

fun source_tags_loop ::
  "('t, 'a) jinja \<Rightarrow> (string \<Rightarrow> string \<Rightarrow> bool) \<Rightarrow> world \<Rightarrow> nat \<Rightarrow> 't Builder \<Rightarrow> 't Build \<Rightarrow> string
     \<Rightarrow> string \<Rightarrow> string list \<Rightarrow> bool \<Rightarrow> builder_state \<Rightarrow> builder_state \<times> (py_error + bool) option" where
  "source_tags_loop J rs W n B build timestamp repository [] has_applicable_tags st =
     (st, Some (Inr has_applicable_tags))"
| "source_tags_loop J rs W n B build timestamp repository (source_tag # rest) has_applicable_tags st =
     and_then
       (source_tag_iteration J rs W n B build timestamp repository source_tag
          has_applicable_tags st)
       (\<lambda>st' has'. source_tags_loop J rs W n B build timestamp repository rest has' st')"

text \<open>
  Lines 398 to 414, after the source tags of one build. The result \<open>Some b\<close> is
  \<^verbatim>\<open>return b\<close>; \<open>None\<close> goes on with the next build.
  \<^verbatim>\<open>
  if has_applicable_tags:
      if self.push and not self.dry_run:
          try:
              self.push_image(repository)
          except DockerException as err:
              print("Failed to push image: {0}".format(err))
              return False
      if self.save and not self.dry_run:
          try:
              self.save_image(repository)
          except Exception as err:
              print("Failed to push image: {0}".format(err))
              return False
  else:
      if not self.ignore_empty:
          print("The build has no applicable destination for any source tag!")
          return False
  \<close>
\<close>

definition save_phase ::
  "world \<Rightarrow> 't Builder \<Rightarrow> string \<Rightarrow> builder_state
     \<Rightarrow> builder_state \<times> (py_error + bool option) option" where
  "save_phase W B repository st =
     (if save B \<and> \<not> dry_run B then
        (case save_image W repository (out st) of
           (eff, Some err) \<Rightarrow>
             (st\<lparr>out := eff @ [Print (''Failed to push image: '' @ str_error W err)]\<rparr>,
              Some (Inr (Some False)))
         | (eff, None) \<Rightarrow> (st\<lparr>out := eff\<rparr>, Some (Inr None)))
      else (st, Some (Inr None)))"

definition after_tags ::
  "world \<Rightarrow> 't Builder \<Rightarrow> string \<Rightarrow> bool \<Rightarrow> builder_state
     \<Rightarrow> builder_state \<times> (py_error + bool option) option" where
  "after_tags W B repository has_applicable_tags st =
     (if has_applicable_tags then
        (if push B \<and> \<not> dry_run B then
           (case push_image W repository (out st) of
              (eff, Some (DockerException m)) \<Rightarrow>
                (st\<lparr>out := eff @ [Print (''Failed to push image: ''
                                        @ str_error W (DockerException m))]\<rparr>,
                 Some (Inr (Some False)))
            | (eff, Some err) \<Rightarrow> (st\<lparr>out := eff\<rparr>, Some (Inl err))
            | (eff, None) \<Rightarrow> save_phase W B repository (st\<lparr>out := eff\<rparr>))
         else save_phase W B repository st)
      else if \<not> ignore_empty B then
        (st\<lparr>out := out st
                @ [Print ''The build has no applicable destination for any source tag!'']\<rparr>,
         Some (Inr (Some False)))
      else (st, Some (Inr None)))"

text \<open>
  The body of \<^verbatim>\<open>for build in self.builds\<close> (lines 337 to 417); a \<open>BuildError\<close> of the
  \<^verbatim>\<open>try\<close> block is caught, printed, and the run returns \<open>False\<close>.
\<close>

definition build_one ::
  "('t, 'a) jinja \<Rightarrow> (string \<Rightarrow> string \<Rightarrow> bool) \<Rightarrow> world \<Rightarrow> nat \<Rightarrow> 't Builder \<Rightarrow> nat \<Rightarrow> 't Build
     \<Rightarrow> builder_state \<Rightarrow> builder_state \<times> (py_error + bool option) option" where
  "build_one J rs W n B i build st =
     (let timestamp = now W i;
          repository = path_join (namespace build) (name build);
          st0 = st\<lparr>out := out st @ [Print (''Build: '' @ name build),
                                     Print (''  Repository: '' @ repository @ [newline])]\<rparr>
      in case (case map_of (source build) ''tags'' of
                 None \<Rightarrow> (st0, Some (Inl (KeyError ''tags'')))
               | Some v \<Rightarrow>
                   (case str_list v of
                      None \<Rightarrow> (st0, Some (Inl NotModelled))
                    | Some source_tags \<Rightarrow>
                        and_then
                          (source_tags_loop J rs W n B build timestamp repository
                             source_tags False st0)
                          (\<lambda>st1 has. after_tags W B repository has st1))) of
           (st1, Some (Inl (BuildError m))) \<Rightarrow>
             (st1\<lparr>out := out st1 @ [Print (''Failed to build image: ''
                                          @ str_error W (BuildError m))]\<rparr>,
              Some (Inr (Some False)))
         | r \<Rightarrow> r)"

fun builds_loop ::
  "('t, 'a) jinja \<Rightarrow> (string \<Rightarrow> string \<Rightarrow> bool) \<Rightarrow> world \<Rightarrow> nat \<Rightarrow> 't Builder \<Rightarrow> nat \<Rightarrow> 't Build list
     \<Rightarrow> builder_state \<Rightarrow> builder_state \<times> (py_error + bool) option" where
  "builds_loop J rs W n B i [] st = (st, Some (Inr True))"
| "builds_loop J rs W n B i (build # rest) st =
     and_then (build_one J rs W n B i build st)
       (\<lambda>st' r. case r of
                   Some b \<Rightarrow> (st', Some (Inr b))
                 | None \<Rightarrow> builds_loop J rs W n B (Suc i) rest st')"

text \<open>
  \<^verbatim>\<open>
  def build(self):
      root_excludes = []
      for build in self.builds:
          root_excludes.append(build.variants_dir)
          root_excludes.append(build.variants['.'].template_file)
      for build in self.builds: ...
      return True
  \<close>
\<close>

fun collect_root_excludes :: "'t Build list \<Rightarrow> string list \<Rightarrow> py_error + string list" where
  "collect_root_excludes [] acc = Inr acc"
| "collect_root_excludes (build # rest) acc =
     (case map_of (variants build) ''.'' of
        None \<Rightarrow> Inl (KeyError ''.'')
      | Some root \<Rightarrow>
          collect_root_excludes rest (acc @ [variants_dir build, template_file root]))"

definition Builder_build ::
  "('t, 'a) jinja \<Rightarrow> (string \<Rightarrow> string \<Rightarrow> bool) \<Rightarrow> world \<Rightarrow> nat \<Rightarrow> 't Builder \<Rightarrow> builder_state
     \<Rightarrow> builder_state \<times> (py_error + bool) option" where
  "Builder_build J rs W n B st =
     (case collect_root_excludes (builds B) [] of
        Inl err \<Rightarrow> (st, Some (Inl err))
      | Inr rx \<Rightarrow> builds_loop J rs W n B 0 (builds B) (st\<lparr>root_excludes := rx\<rparr>))"

text \<open>The state a process starts \<^verbatim>\<open>build\<close> in, for the variables of the command line.\<close>

definition initial_state :: "pydict \<Rightarrow> builder_state" where
  "initial_state vars =
     \<lparr>self_variables = vars, root_excludes = [], files_default = [], out = []\<rparr>"

section \<open>A small world for the examples\<close>

text \<open>
  No directories and no files; an engine that answers every build with one line,
  \<^verbatim>\<open>Successfully built 0123abcd\<close>; \<^verbatim>\<open>exclude_paths\<close> the files of a listing whose
  names are not among the patterns. The examples below change single fields of it.
\<close>

definition listing_world :: "(string \<times> string list) list \<Rightarrow> world" where
  "listing_world listing =
     \<lparr>isdir = (\<lambda>p. False),
      load_yaml = (\<lambda>p. None),
      read_file = (\<lambda>p. None),
      exclude_paths = (\<lambda>root patterns.
         set (filter (\<lambda>f. f \<notin> set patterns)
                (case map_of listing root of None \<Rightarrow> [] | Some fs \<Rightarrow> fs))),
      api_build = (\<lambda>c. [[(''stream'', ''Successfully built 0123abcd'')]]),
      api_push = (\<lambda>r. []),
      api_get_image = (\<lambda>r. None),
      images_get = (\<lambda>i. None),
      now = (\<lambda>i. ''20170101000000''),
      py_str = (\<lambda>v. case v of PStr s \<Rightarrow> s | _ \<Rightarrow> []),
      str_error = (\<lambda>e. [])\<rparr>"

definition bare_world :: world where
  "bare_world = listing_world []"

text \<open>A matcher for the examples: the pattern \<^verbatim>\<open>^p\<close>, with \<open>p\<close> free of
  metacharacters, matches the strings that start with \<open>p\<close>.\<close>

definition caret_search :: "string \<Rightarrow> string \<Rightarrow> bool" where
  "caret_search pat s = (case pat of [] \<Rightarrow> True | c # p \<Rightarrow> c = CHR ''^'' \<and> take (length p) s = p)"

section \<open>An example build\<close>

text \<open>
  One build, \<^verbatim>\<open>app\<close>, from the source tags \<^verbatim>\<open>1.0\<close> and \<^verbatim>\<open>2.0\<close>, with the default
  tag definition \<^verbatim>\<open>latest\<close>. The root template is \<^verbatim>\<open>./Dockerfile.j2\<close>; the
  directory \<^verbatim>\<open>./variants/1.0\<close> exists and is empty: no config file, no template, no
  \<^verbatim>\<open>.dockerignore\<close>. There is no directory for \<^verbatim>\<open>2.0\<close>.
\<close>

definition example_jinja :: "(template_obj, node list) jinja" where
  "example_jinja = mini_jinja [(''./Dockerfile.j2'', ''FROM scratch'')]"

definition override_world :: world where
  "override_world = bare_world\<lparr>isdir := (\<lambda>p. p = ''./variants/1.0'')\<rparr>"

definition latest_candidate :: TagCandidate where
  "latest_candidate =
     \<lparr>template = ''latest'', selectors = [], negate = False, only_primary = False\<rparr>"

definition scratch_template :: template_obj where
  "scratch_template =
     \<lparr>t_env = Environment StrictUndefined, t_nodes = [TemplateData ''FROM scratch'']\<rparr>"

definition example_variants :: "pydict list \<Rightarrow> (string \<times> template_obj BuildVariant) list" where
  "example_variants tgs =
     [(''.'',
       \<lparr>config_file = None, directory = ''.'', template_file = ''Dockerfile.j2'',
        tags = (if tgs = [] then [] else [(''latest'', latest_candidate)]),
        variables = [], bv_template = Some scratch_template\<rparr>),
      (''1.0'',
       \<lparr>config_file = Some ''image-build.yml'', directory = ''./variants/1.0'',
        template_file = ''Dockerfile.j2'',
        tags = (if tgs = [] then [] else [(''latest'', latest_candidate)]),
        variables = [], bv_template = Some scratch_template\<rparr>)]"

definition example_build :: "pydict list \<Rightarrow> template_obj Build" where
  "example_build tgs =
     \<lparr>name = ''app'', namespace = ''image-build'',
      source = [(''name'', PStr ''app''), (''tags'', PList [PStr ''1.0'', PStr ''2.0'']),
                (''primary'', PStr ''1.0'')],
      root_dir = ''.'', variants_dir = ''./variants'',
      variants = example_variants tgs\<rparr>"

definition example_builder :: "bool \<Rightarrow> pydict list \<Rightarrow> template_obj Builder" where
  "example_builder dry tgs =
     \<lparr>self_select = None, push = False, save = False, dry_run = dry, ignore_empty = False,
      builds = [example_build tgs]\<rparr>"

section \<open>Notions used in the statements\<close>

text \<open>The value one round of the loop leaves under \<open>key\<close>, given what \<open>result\<close> held
  there.\<close>

definition merged_value :: "pyval option \<Rightarrow> pyval \<Rightarrow> string list \<Rightarrow> string \<Rightarrow> pyval" where
  "merged_value r bv path key =
     (case r of
        None \<Rightarrow> bv
      | Some rv \<Rightarrow>
          (case (rv, bv) of
             (PDict ra, PDict rb) \<Rightarrow> PDict (merge_dict ra rb (path @ [key]))
           | _ \<Rightarrow> if py_eq rv bv then rv else bv))"

text \<open>The candidate a tag definition gives, the elements of a list in the order of
  their first occurrences, and the tag definitions in the data of a variant's config
  file (none when there is no \<^verbatim>\<open>tags\<close> entry in it).\<close>

definition the_candidate :: "pydict \<Rightarrow> TagCandidate" where
  "the_candidate d =
     (case TagCandidate_init d of
        Inr c \<Rightarrow> c
      | Inl err \<Rightarrow> \<lparr>template = [], selectors = [], negate = False, only_primary = False\<rparr>)"

fun first_occurrences :: "'a list \<Rightarrow> 'a list" where
  "first_occurrences [] = []"
| "first_occurrences (x # xs) = x # filter (\<lambda>y. y \<noteq> x) (first_occurrences xs)"

definition config_tag_definitions :: "pydict \<Rightarrow> pydict list option" where
  "config_tag_definitions data =
     (case map_of data ''tags'' of None \<Rightarrow> Some [] | Some tv \<Rightarrow> dict_list tv)"

text \<open>What the constructor of a variant makes of a tag definition of the config file
  (line 177).\<close>

definition force :: "pydict \<Rightarrow> pydict" where
  "force d = merge_dict d [(''only_primary'', PBool False)] []"

text \<open>The image identifier of the success marker in the \<^verbatim>\<open>stream\<close> field of an
  event, if there is one.\<close>

definition marker :: "event \<Rightarrow> string option" where
  "marker ev = (if ''stream'' \<in> set (keys ev) then search_success (field ev ''stream'') else None)"

text \<open>\<open>quiet st st'\<close>: from \<open>st\<close> to \<open>st'\<close> the run has printed lines and done nothing
  else to the world.\<close>

definition is_print :: "effect \<Rightarrow> bool" where
  "is_print e = (case e of Print s \<Rightarrow> True | _ \<Rightarrow> False)"

definition quiet :: "builder_state \<Rightarrow> builder_state \<Rightarrow> bool" where
  "quiet st st' = (\<exists>es. out st' = out st @ es \<and> list_all is_print es)"

section \<open>Further examples\<close>




text \<open>Two override variants; only \<^verbatim>\<open>variants/1.0\<close> has a \<^verbatim>\<open>.dockerignore\<close>, which
  names \<^verbatim>\<open>secret.txt\<close>.\<close>

definition variant_at :: "string \<Rightarrow> template_obj BuildVariant" where
  "variant_at dir =
     \<lparr>config_file = Some ''image-build.yml'', directory = dir,
      template_file = ''Dockerfile.j2'', tags = [], variables = [], bv_template = None\<rparr>"

definition ignore_world :: world where
  "ignore_world =
     (listing_world
        [(''variants/1.0'', [''Dockerfile.j2'', ''run.sh'', ''secret.txt'']),
         (''variants/2.0'', [''Dockerfile.j2'', ''secret.txt'', ''app.conf''])])
     \<lparr>read_file := (\<lambda>p. if p = ''variants/1.0/.dockerignore''
                         then Some (''secret.txt'' @ [newline]) else None)\<rparr>"

text \<open>
  An override variant in \<^verbatim>\<open>variants/1.0\<close>: the build defines \<^verbatim>\<open>latest\<close> and a
  primary-only \<^verbatim>\<open>stable\<close> for the selections that start with \<^verbatim>\<open>v\<close>; the config file
  of the variant defines \<^verbatim>\<open>edge\<close>, and \<^verbatim>\<open>latest\<close> again, primary-only and for the
  selections that start with \<^verbatim>\<open>v\<close>.
\<close>

definition tags_world :: world where
  "tags_world =
     bare_world\<lparr>load_yaml := (\<lambda>p. if p = ''variants/1.0/image-build.yml''
        then Some (PDict [(''tags'', PList [PDict [(''template'', PStr ''edge'')],
                                            PDict [(''template'', PStr ''latest''),
                                                   (''selectors'', PList [PStr ''^v'']),
                                                   (''only_primary'', PBool True)]])])
        else None)\<rparr>"

definition build_level_tags :: "pydict list" where
  "build_level_tags =
     [[(''template'', PStr ''latest'')],
      [(''template'', PStr ''stable''), (''selectors'', PList [PStr ''^v'']),
       (''only_primary'', PBool True)]]"

definition config_level_tags :: "pydict list" where
  "config_level_tags =
     [[(''template'', PStr ''edge'')],
      [(''template'', PStr ''latest''), (''selectors'', PList [PStr ''^v'']),
       (''only_primary'', PBool True)]]"

definition tags_variant :: "template_obj BuildVariant" where
  "tags_variant =
     \<lparr>config_file = Some ''image-build.yml'', directory = ''variants/1.0'',
      template_file = ''Dockerfile.j2'',
      tags = [(''latest'', \<lparr>template = ''latest'', selectors = [''^v''], negate = False,
                            only_primary = False\<rparr>),
              (''stable'', \<lparr>template = ''stable'', selectors = [''^v''], negate = False,
                            only_primary = True\<rparr>),
              (''edge'', \<lparr>template = ''edge'', selectors = [], negate = False,
                          only_primary = False\<rparr>)],
      variables = [], bv_template = None\<rparr>"
section \<open>Properties of dictionaries and of merge\_dict\<close>

lemma map_of_dict_set: "map_of (dict_set d k v) = (map_of d)(k \<mapsto> v)"
  by (induction d) (auto simp: fun_eq_iff)

lemma keys_dict_set:
  "keys (dict_set d k v) = (if k \<in> set (keys d) then keys d else keys d @ [k])"
  by (induction d) (force simp: keys_def)+


lemma dict_set_same: "map_of d k = Some v \<Longrightarrow> dict_set d k v = d"
  by (induction d) (auto split: if_splits)

lemma map_of_None_keys: "(map_of d k = None) = (k \<notin> set (keys d))"
  by (simp add: keys_def map_of_eq_None_iff)

lemma wf_dict_set: "wf_dict d \<Longrightarrow> wf_dict (dict_set d k v)"
  by (simp add: wf_dict_def keys_dict_set)

lemma merge_loop_Cons:
  "merge_loop r ((key, bv) # b) path =
     merge_loop (dict_set r key (merged_value (map_of r key) bv path key)) b path"
  by (auto simp: merged_value_def merge_dict_def dict_set_same split: option.splits pyval.splits)

lemma merge_loop_other:
  "k \<notin> set (keys b) \<Longrightarrow> map_of (merge_loop r b path) k = map_of r k"
proof (induction b arbitrary: r)
  case Nil
  then show ?case by simp
next
  case (Cons kv b)
  obtain key bv where kv: "kv = (key, bv)" by (cases kv)
  from Cons.prems kv have "k \<noteq> key" "k \<notin> set (keys b)" by (auto simp: keys_def)
  then show ?case
    unfolding kv merge_loop_Cons by (simp add: Cons.IH map_of_dict_set)
qed

lemma merge_loop_keys:
  "distinct (keys b) \<Longrightarrow>
   keys (merge_loop r b path) = keys r @ filter (\<lambda>k. k \<notin> set (keys r)) (keys b)"
proof (induction b arbitrary: r)
  case Nil
  then show ?case by (simp add: keys_def)
next
  case (Cons kv b)
  obtain key bv where kv: "kv = (key, bv)" by (cases kv)
  from Cons.prems kv have d: "distinct (keys b)" and n: "key \<notin> set (keys b)"
    by (auto simp: keys_def)
  have "filter (\<lambda>k. k \<noteq> key \<and> k \<notin> set (keys r)) (keys b)
        = filter (\<lambda>k. k \<notin> set (keys r)) (keys b)"
    using n by (auto intro: filter_cong)
  then show ?case
    unfolding kv merge_loop_Cons using n
    by (simp add: Cons.IH [OF d] keys_dict_set) (simp add: keys_def)
qed

lemma merge_loop_at:
  "distinct (keys b) \<Longrightarrow> map_of b key = Some bv \<Longrightarrow>
   map_of (merge_loop r b path) key = Some (merged_value (map_of r key) bv path key)"
proof (induction b arbitrary: r)
  case Nil
  then show ?case by simp
next
  case (Cons kv b)
  obtain k' v' where kv: "kv = (k', v')" by (cases kv)
  from Cons.prems kv have d: "distinct (keys b)" and n: "k' \<notin> set (keys b)"
    by (auto simp: keys_def)
  show ?case
  proof (cases "k' = key")
    case True
    with Cons.prems kv have "v' = bv" by simp
    with True n show ?thesis
      unfolding kv merge_loop_Cons by (simp add: merge_loop_other map_of_dict_set)
  next
    case False
    with Cons.prems kv have "map_of b key = Some bv" by simp
    from Cons.IH [OF d this] False show ?thesis
      unfolding kv merge_loop_Cons by (simp add: map_of_dict_set)
  qed
qed


lemma merge_dict_wf: "wf_dict a \<Longrightarrow> wf_dict b \<Longrightarrow> wf_dict (merge_dict a b path)"
  by (auto simp: wf_dict_def merge_dict_def merge_loop_keys)

section \<open>merge\_dict on the heap computes merge\_dict, in fresh objects\<close>








lemma represents_Leaf: "represents X h (Leaf x) t \<Longrightarrow> t = x \<and> \<not> is_dict x"
  by simp







section \<open>The contract of merge\_dict\<close>



section \<open>Properties of TagCandidate.selected\<close>

lemma selectors_loop_any:
  "selectors_loop re_search sels s neg = ((\<exists>sel \<in> set sels. re_search sel s) \<noteq> neg)"
  by (induction sels) auto

text \<open>
  Claim C1. \<open>selected\<close> is false for an ineligible candidate, where
  eligible = is\_primary or (is\_primary = only\_primary); for an eligible one with a
  non-empty select filter and selector patterns it is (some selector matches the filter)
  XOR negate; otherwise it is NOT negate. A candidate with only\_primary set is never
  selected for a non-primary tag, whatever its selectors.
\<close>

theorem selected_spec:
  "selected re_search c select primary =
     (let eligible = (primary \<or> (primary = only_primary c)) in
      if \<not> eligible then False
      else if select \<noteq> None \<and> select \<noteq> Some [] \<and> selectors c \<noteq> [] then
        ((\<exists>sel \<in> set (selectors c). re_search sel (the select)) \<noteq> negate c)
      else \<not> negate c)
   \<and> (only_primary c \<and> \<not> primary \<longrightarrow> \<not> selected re_search c select primary)"
proof -
  have t: "truthy_str select = (select \<noteq> None \<and> select \<noteq> Some [])"
    by (cases select) (simp_all add: truthy_str_def)
  show ?thesis
    unfolding selected_def Let_def t selectors_loop_any by auto
qed

theorem selected_spec_witness:
  "selected caret_search
     \<lparr>template = ''stable'', selectors = [''^v''], negate = False, only_primary = False\<rparr>
     (Some ''v1.2'') False
   \<and> \<not> selected caret_search
     \<lparr>template = ''stable'', selectors = [''^v''], negate = False, only_primary = False\<rparr>
     (Some ''beta'') False
   \<and> \<not> selected caret_search
     \<lparr>template = ''stable'', selectors = [''^v''], negate = True, only_primary = False\<rparr>
     (Some ''v1'') False
   \<and> \<not> selected caret_search
     \<lparr>template = ''stable'', selectors = [''^v''], negate = False, only_primary = True\<rparr>
     (Some ''v1.2'') False"
  using selected_spec [of caret_search
      "\<lparr>template = ''stable'', selectors = [''^v''], negate = False, only_primary = False\<rparr>"
      "Some ''v1.2''" False]
    selected_spec [of caret_search
      "\<lparr>template = ''stable'', selectors = [''^v''], negate = False, only_primary = False\<rparr>"
      "Some ''beta''" False]
    selected_spec [of caret_search
      "\<lparr>template = ''stable'', selectors = [''^v''], negate = True, only_primary = False\<rparr>"
      "Some ''v1''" False]
    selected_spec [of caret_search
      "\<lparr>template = ''stable'', selectors = [''^v''], negate = False, only_primary = True\<rparr>"
      "Some ''v1.2''" False]
  by (simp add: caret_search_def)

section \<open>Properties of Utils.render\_template\<close>

lemma render_template_one_pass:
  assumes "render J t vars = Inr data"
    and "parse J (Environment StrictUndefined) data = Inr ast"
    and "find_undeclared_variables J ast = []"
  shows "render_template J (Suc n) t vars None = Some (Inr data)"
  using assms by simp

lemma render_template_again:
  assumes "render J t vars = Inr data"
    and "parse J (Environment StrictUndefined) data = Inr ast"
    and "find_undeclared_variables J ast \<noteq> []"
  shows "render_template J (Suc n) t vars None =
         render_template J n (from_string J (Environment StrictUndefined) ast) vars
           (Some (Environment StrictUndefined))"
  using assms by (simp add: Let_def)

lemma render_template_returns:
  "\<exists>r. render_template J n t vars env = Some r"
proof (induction n arbitrary: t env)
  case 0
  then show ?case by simp
next
  case (Suc n)
  then show ?case
    by (simp add: Let_def split: sum.splits)
qed

lemma render_template_stable:
  "render_template J n t vars env = Some (Inr s) \<Longrightarrow>
   \<exists>ast. parse J (case env of None \<Rightarrow> Environment StrictUndefined | Some e \<Rightarrow> e) s = Inr ast
        \<and> find_undeclared_variables J ast = []"
proof (induction n arbitrary: t env)
  case 0
  then show ?case by simp
next
  case (Suc n)
  then show ?case
    by (fastforce simp: Let_def split: sum.splits if_splits)
qed

lemma render_template_more_room:
  "render_template J n t vars env = Some r \<Longrightarrow> r \<noteq> Inl RecursionError \<Longrightarrow>
   render_template J (n + k) t vars env = Some r"
proof (induction n arbitrary: t env)
  case 0
  then show ?case by simp
next
  case (Suc n)
  then show ?case
    by (auto simp: Let_def split: sum.splits if_splits)
qed

lemma parse_self: "parse_nodes [] ''{{ x }}'' = Inr [Name ''x'']"
  by (simp add: flush_def expression_def strip_spaces_def ident_chars_def)

lemma self_reference_recursion_error:
  "render_template (mini_jinja fs) n \<lparr>t_env = e, t_nodes = [Name ''x'']\<rparr>
     [(''x'', PStr ''{{ x }}'')] env = Some (Inl RecursionError)"
proof (induction n arbitrary: e env)
  case 0
  then show ?case by simp
next
  case (Suc n)
  have r: "render (mini_jinja fs) \<lparr>t_env = e, t_nodes = [Name ''x'']\<rparr> [(''x'', PStr ''{{ x }}'')]
        = Inr ''{{ x }}''"
    by (cases e) (simp add: mini_jinja_def)
  have p: "parse (mini_jinja fs) e' ''{{ x }}'' = Inr [Name ''x'']" for e'
    by (simp add: mini_jinja_def parse_self del: parse_nodes.simps)
  have f: "from_string (mini_jinja fs) e' ast = \<lparr>t_env = e', t_nodes = ast\<rparr>" for e' ast
    by (simp add: mini_jinja_def)
  have u: "find_undeclared_variables (mini_jinja fs) [Name ''x''] = [''x'']"
    by (simp add: mini_jinja_def)
  show ?case
    by (simp add: r p f u Let_def Suc.IH)
qed

lemma Template_self:
  "Template (mini_jinja fs) ''{{ x }}''
   = Inr \<lparr>t_env = Environment Undefined, t_nodes = [Name ''x'']\<rparr>"
  by (simp add: mini_jinja_def parse_self del: parse_nodes.simps)

lemma self_reference_tag:
  "TagCandidate_render (mini_jinja fs) n
     \<lparr>template = ''{{ x }}'', selectors = [], negate = False, only_primary = False\<rparr>
     [(''x'', PStr ''{{ x }}'')] = Some (Inl RecursionError)"
  by (simp add: TagCandidate_render_def Template_self self_reference_recursion_error)

text \<open>
  Claim C4. Every call of \<open>render_template\<close> comes to an end, returning or raising,
  whatever the template, the variables and the room \<open>n\<close> the interpreter has for nested
  calls; the calls of one run are nested, so there are at most \<open>n\<close> passes. A template
  whose first-pass output references no variable (as an output without template syntax
  does) returns that output after exactly one pass: room for one call is enough. When
  the output of a pass references a variable, the output is rendered again. A string
  that \<open>render_template\<close> returns is stable, it references no variable; and a result
  other than the interpreter's \<open>RecursionError\<close> is the result with any larger room.
  The self-referential input, a variable \<open>x\<close> whose value is \<^verbatim>\<open>{{ x }}\<close> in the tag
  template \<^verbatim>\<open>{{ x }}\<close>, reproduces itself in every pass and fails with
  \<open>RecursionError\<close> after as many passes as there is room for.
\<close>

theorem render_template_terminates:
  "(\<exists>r. render_template J n t vars env = Some r)
   \<and> (render J t vars = Inr data \<and> parse J (Environment StrictUndefined) data = Inr ast
      \<and> find_undeclared_variables J ast = []
      \<longrightarrow> render_template J 1 t vars None = Some (Inr data))
   \<and> (render J t vars = Inr data \<and> parse J (Environment StrictUndefined) data = Inr ast
      \<and> find_undeclared_variables J ast \<noteq> []
      \<longrightarrow> render_template J (Suc n) t vars None =
          render_template J n (from_string J (Environment StrictUndefined) ast) vars
            (Some (Environment StrictUndefined)))
   \<and> (render_template J n t vars None = Some (Inr s)
      \<longrightarrow> (\<exists>ast'. parse J (Environment StrictUndefined) s = Inr ast'
                \<and> find_undeclared_variables J ast' = []))
   \<and> (render_template J n t vars None = Some r \<and> r \<noteq> Inl RecursionError
      \<longrightarrow> render_template J (n + k) t vars None = Some r)
   \<and> (\<forall>m. TagCandidate_render (mini_jinja []) m
             \<lparr>template = ''{{ x }}'', selectors = [], negate = False, only_primary = False\<rparr>
             [(''x'', PStr ''{{ x }}'')] = Some (Inl RecursionError))"
proof -
  have 0: "\<exists>r. render_template J n t vars env = Some r"
    by (rule render_template_returns)
  have 1: "render J t vars = Inr data \<and> parse J (Environment StrictUndefined) data = Inr ast
      \<and> find_undeclared_variables J ast = []
      \<longrightarrow> render_template J 1 t vars None = Some (Inr data)"
    using render_template_one_pass [of J t vars data ast 0] by simp
  have 2: "render J t vars = Inr data \<and> parse J (Environment StrictUndefined) data = Inr ast
      \<and> find_undeclared_variables J ast \<noteq> []
      \<longrightarrow> render_template J (Suc n) t vars None =
          render_template J n (from_string J (Environment StrictUndefined) ast) vars
            (Some (Environment StrictUndefined))"
    using render_template_again [of J t vars data ast n] by blast
  have 3: "render_template J n t vars None = Some (Inr s)
      \<longrightarrow> (\<exists>ast'. parse J (Environment StrictUndefined) s = Inr ast'
                \<and> find_undeclared_variables J ast' = [])"
    using render_template_stable [of J n t vars None s] by simp
  have 4: "render_template J n t vars None = Some r \<and> r \<noteq> Inl RecursionError
      \<longrightarrow> render_template J (n + k) t vars None = Some r"
    using render_template_more_room [of J n t vars None r k] by blast
  from 0 1 2 3 4 self_reference_tag show ?thesis by blast
qed

text \<open>The theorem at work: a static tag is done in one pass, a value that is a template
  fragment in two, also with more room; the self-referential tag fails where there is
  room for a thousand calls.\<close>

theorem render_template_terminates_witness:
  "render_template (mini_jinja []) 1
     \<lparr>t_env = Environment Undefined, t_nodes = [TemplateData ''latest'']\<rparr> [] None
     = Some (Inr ''latest'')
   \<and> render_template (mini_jinja []) 2
     \<lparr>t_env = Environment Undefined, t_nodes = [Name ''x'']\<rparr>
     [(''x'', PStr ''v{{ y }}''), (''y'', PStr ''1'')] None
     = Some (Inr ''v1'')
   \<and> render_template (mini_jinja []) (2 + 5)
     \<lparr>t_env = Environment Undefined, t_nodes = [Name ''x'']\<rparr>
     [(''x'', PStr ''v{{ y }}''), (''y'', PStr ''1'')] None
     = Some (Inr ''v1'')
   \<and> TagCandidate_render (mini_jinja []) 1000
        \<lparr>template = ''{{ x }}'', selectors = [], negate = False, only_primary = False\<rparr>
        [(''x'', PStr ''{{ x }}'')] = Some (Inl RecursionError)"
proof -
  let ?J = "mini_jinja []"
  let ?t = "\<lparr>t_env = Environment Undefined, t_nodes = [TemplateData ''latest'']\<rparr>"
  let ?u = "\<lparr>t_env = Environment Undefined, t_nodes = [Name ''x'']\<rparr>"
  let ?vars = "[(''x'', PStr ''v{{ y }}''), (''y'', PStr ''1'')]"
  have a: "render ?J ?t [] = Inr ''latest''"
    by (simp add: mini_jinja_def)
  have b: "parse ?J (Environment StrictUndefined) ''latest'' = Inr [TemplateData ''latest'']"
    by (simp add: mini_jinja_def flush_def)
  have c: "find_undeclared_variables ?J [TemplateData ''latest''] = []"
    by (simp add: mini_jinja_def)
  have one: "render_template ?J 1 ?t [] None = Some (Inr ''latest'')"
    using render_template_terminates [of ?J _ ?t "[]" _ "''latest''" "[TemplateData ''latest'']"]
      a b c
    by blast
  have two: "render_template ?J 2 ?u ?vars None = Some (Inr ''v1'')"
    by (simp add: mini_jinja_def eval_nat_numeral flush_def expression_def strip_spaces_def
        ident_chars_def)
  have more: "render_template ?J (2 + 5) ?u ?vars None = Some (Inr ''v1'')"
    using render_template_terminates [of ?J 2 ?u ?vars _ _ _ _ "Inr ''v1''" 5] two by blast
  have self: "TagCandidate_render ?J 1000
        \<lparr>template = ''{{ x }}'', selectors = [], negate = False, only_primary = False\<rparr>
        [(''x'', PStr ''{{ x }}'')] = Some (Inl RecursionError)"
    using render_template_terminates [of ?J] by blast
  from one two more self show ?thesis by blast
qed

text \<open>
  Claim C3 fails on the code for tag candidates. \<^verbatim>\<open>TagCandidate.render\<close> compiles the
  tag with \<^verbatim>\<open>Template(self.template)\<close>, in the library's default environment, so the
  first pass renders a missing variable as the empty string and the call returns
  \<^verbatim>\<open>-x\<close>; the same text as the Dockerfile template of a variant, loaded through the
  environment with \<open>StrictUndefined\<close>, raises \<open>UndefinedError\<close>.
\<close>

theorem tag_render_missing_variable:
  "TagCandidate_render (mini_jinja []) 1
     \<lparr>template = ''{{ missing }}-x'', selectors = [], negate = False, only_primary = False\<rparr>
     [] = Some (Inr ''-x'')
   \<and> (case BuildVariant_init (mini_jinja [(''./Dockerfile.j2'', ''{{ missing }}-x'')])
            bare_world ''.'' None None ''Dockerfile.j2'' [] [] of
        Inr v \<Rightarrow> render_dockerfile (mini_jinja [(''./Dockerfile.j2'', ''{{ missing }}-x'')]) 1 v []
      | Inl err \<Rightarrow> None)
     = Some (Inl (UndefinedError ''missing''))"
  by (simp add: TagCandidate_render_def BuildVariant_init_def render_dockerfile_def
      config_data_def mini_jinja_def flush_def expression_def strip_spaces_def
      ident_chars_def merge_dict_def path_join_def dict_list_def forced_tags_def is_dict_def)

section \<open>Properties of Builder.build\_image\<close>

lemma search_success_nonempty: "search_success s = Some i \<Longrightarrow> i \<noteq> []"
  by (induction s) (auto simp: Let_def split: if_splits)

lemma build_events_loop_error:
  "snd (build_events_loop evs eff) = Some err \<Longrightarrow> \<exists>m. err = BuildError (Msg m)"
  by (induction evs arbitrary: eff) (auto split: if_splits)

lemma build_image_result:
  "snd (build_image W c eff) =
     (case snd (build_events_loop (api_build W c)
                  (eff @ [Print ''  Docker build output:'', ApiBuild c])) of
        Some err \<Rightarrow> Inl err
      | None \<Rightarrow>
          if api_build W c = [] then Inl (BuildError (Msg ''Unknown build error''))
          else (case marker (last (api_build W c)) of
                  None \<Rightarrow> Inl (UnboundLocalError ''image_id'')
                | Some i \<Rightarrow> Inr i))"
  by (auto simp: build_image_def marker_def Let_def dest: search_success_nonempty
      split: prod.splits option.splits)

text \<open>
  Claim C8 fails on the code. When no event of the stream was an error and the last
  event has no \<^verbatim>\<open>stream\<close> field, or a \<^verbatim>\<open>stream\<close> field without the success marker,
  the local \<^verbatim>\<open>image_id\<close> has never been assigned when \<^verbatim>\<open>if image_id:\<close> reads it:
  the call ends in an \<open>UnboundLocalError\<close>. The \<^verbatim>\<open>raise BuildError(event, events)\<close>
  after it is never reached, for any engine. With the marker in the last event the
  identifier is returned; an engine that sends nothing gives the \<open>BuildError\<close> of the
  emptiness test, an error event the \<open>BuildError\<close> of the loop.
\<close>

theorem build_image_without_marker:
  "snd (build_image W c eff) =
     (case snd (build_events_loop (api_build W c)
                  (eff @ [Print ''  Docker build output:'', ApiBuild c])) of
        Some err \<Rightarrow> Inl err
      | None \<Rightarrow>
          if api_build W c = [] then Inl (BuildError (Msg ''Unknown build error''))
          else (case marker (last (api_build W c)) of
                  None \<Rightarrow> Inl (UnboundLocalError ''image_id'')
                | Some i \<Rightarrow> Inr i))
   \<and> (\<forall>ev. snd (build_image W c eff) \<noteq> Inl (BuildError (Ev ev)))
   \<and> build_image (bare_world\<lparr>api_build := (\<lambda>c. [[(''status'', ''done'')]])\<rparr>) [] []
     = ([Print ''  Docker build output:'', ApiBuild [], Print ''    done''],
        Inl (UnboundLocalError ''image_id''))
   \<and> build_image (bare_world\<lparr>api_build := (\<lambda>c. [[(''stream'', ''Step 1/1 : FROM scratch'')]])\<rparr>)
       [] []
     = ([Print ''  Docker build output:'', ApiBuild [], Print ''    Step 1/1 : FROM scratch''],
        Inl (UnboundLocalError ''image_id''))
   \<and> build_image bare_world [] []
     = ([Print ''  Docker build output:'', ApiBuild [], Print ''    Successfully built 0123abcd''],
        Inr ''0123abcd'')
   \<and> build_image (bare_world\<lparr>api_build := (\<lambda>c. [])\<rparr>) [] []
     = ([Print ''  Docker build output:'', ApiBuild []],
        Inl (BuildError (Msg ''Unknown build error'')))"
proof -
  have u: "\<forall>ev. snd (build_image W c eff) \<noteq> Inl (BuildError (Ev ev))"
    unfolding build_image_result
    by (auto split: option.splits dest: build_events_loop_error)
  have 1: "build_image (bare_world\<lparr>api_build := (\<lambda>c. [[(''status'', ''done'')]])\<rparr>) [] []
     = ([Print ''  Docker build output:'', ApiBuild [], Print ''    done''],
        Inl (UnboundLocalError ''image_id''))"
    by code_simp
  have 2: "build_image
       (bare_world\<lparr>api_build := (\<lambda>c. [[(''stream'', ''Step 1/1 : FROM scratch'')]])\<rparr>) [] []
     = ([Print ''  Docker build output:'', ApiBuild [], Print ''    Step 1/1 : FROM scratch''],
        Inl (UnboundLocalError ''image_id''))"
    by code_simp
  have 3: "build_image bare_world [] []
     = ([Print ''  Docker build output:'', ApiBuild [], Print ''    Successfully built 0123abcd''],
        Inr ''0123abcd'')"
    by code_simp
  have 4: "build_image (bare_world\<lparr>api_build := (\<lambda>c. [])\<rparr>) [] []
     = ([Print ''  Docker build output:'', ApiBuild []],
        Inl (BuildError (Msg ''Unknown build error'')))"
    by code_simp
  from build_image_result [of W c eff] u 1 2 3 4 show ?thesis by blast
qed

section \<open>Properties of BuildVariant.files\<close>

lemma files_exclude_grows:
  "\<exists>added. snd (files W v exclude) = exclude @ added \<and> 2 \<le> length added"
  by (auto simp: files_def Let_def split: option.splits)

text \<open>
  Claim C7 fails on the code. \<open>files\<close> appends to the list it is given: the caller's
  list is longer after every call, by the config file name, the template file name and
  the lines of the variant's \<^verbatim>\<open>.dockerignore\<close>. Called without an argument, as
  \<^verbatim>\<open>build\<close> calls it for override variants, it appends to the one default list, which
  is never emptied: the variant of \<^verbatim>\<open>variants/2.0\<close>, which has no \<^verbatim>\<open>.dockerignore\<close>,
  keeps \<^verbatim>\<open>secret.txt\<close> in its context when it is the first to call, and loses it
  after the variant of \<^verbatim>\<open>variants/1.0\<close>, whose \<^verbatim>\<open>.dockerignore\<close> names that file,
  has called.
\<close>

theorem files_changes_the_callers_list:
  "snd (files W v exclude) \<noteq> exclude
   \<and> (\<exists>added. snd (files W v exclude) = exclude @ added \<and> 2 \<le> length added)
   \<and> files ignore_world (variant_at ''variants/2.0'') []
      = ([''app.conf'', ''secret.txt''], [''image-build.yml'', ''Dockerfile.j2''])
   \<and> files ignore_world (variant_at ''variants/1.0'') []
      = ([''run.sh''], [''image-build.yml'', ''Dockerfile.j2'', ''secret.txt''])
   \<and> files ignore_world (variant_at ''variants/2.0'')
        (snd (files ignore_world (variant_at ''variants/1.0'') []))
      = ([''app.conf''],
         [''image-build.yml'', ''Dockerfile.j2'', ''secret.txt'', ''image-build.yml'',
          ''Dockerfile.j2''])"
proof -
  obtain added where a: "snd (files W v exclude) = exclude @ added" and l: "2 \<le> length added"
    using files_exclude_grows by blast
  from a l have n: "snd (files W v exclude) \<noteq> exclude" by auto
  have 1: "files ignore_world (variant_at ''variants/2.0'') []
      = ([''app.conf'', ''secret.txt''], [''image-build.yml'', ''Dockerfile.j2''])"
    by code_simp
  have 2: "files ignore_world (variant_at ''variants/1.0'') []
      = ([''run.sh''], [''image-build.yml'', ''Dockerfile.j2'', ''secret.txt''])"
    by code_simp
  have 3: "files ignore_world (variant_at ''variants/2.0'')
        [''image-build.yml'', ''Dockerfile.j2'', ''secret.txt'']
      = ([''app.conf''],
         [''image-build.yml'', ''Dockerfile.j2'', ''secret.txt'', ''image-build.yml'',
          ''Dockerfile.j2''])"
    by code_simp
  from n a l 1 2 3 show ?thesis by auto
qed

section \<open>Properties of the tag candidates of a variant\<close>

lemma tags_loop_foldl:
  "tags_loop acc defs = Inr res \<Longrightarrow>
   res = foldl (\<lambda>a c. dict_set a (template c) c) acc (map the_candidate defs)
   \<and> (\<forall>d \<in> set defs. TagCandidate_init d = Inr (the_candidate d))"
proof (induction defs arbitrary: acc)
  case Nil
  then show ?case by simp
next
  case (Cons d defs)
  from Cons.prems obtain c where c: "TagCandidate_init d = Inr c"
    and rest: "tags_loop (dict_set acc (template c) c) defs = Inr res"
    by (auto split: sum.splits)
  from Cons.IH [OF rest] c show ?case
    by (simp add: the_candidate_def)
qed

lemma first_occurrences_set: "set (first_occurrences xs) = set xs"
  by (induction xs) auto

lemma first_occurrences_distinct: "distinct (first_occurrences xs)"
  by (induction xs) (auto simp: first_occurrences_set)

lemma keys_foldl_dict_set:
  "keys (foldl (\<lambda>a c. dict_set a (f c) c) acc cs)
   = keys acc @ filter (\<lambda>k. k \<notin> set (keys acc)) (first_occurrences (map f cs))"
proof (induction cs arbitrary: acc)
  case Nil
  then show ?case by simp
next
  case (Cons c cs)
  show ?case
  proof (cases "f c \<in> set (keys acc)")
    case True
    then have "filter (\<lambda>k. k \<notin> set (keys acc)) (filter (\<lambda>y. y \<noteq> f c) (first_occurrences (map f cs)))
             = filter (\<lambda>k. k \<notin> set (keys acc)) (first_occurrences (map f cs))"
      by (auto simp: filter_filter intro: filter_cong)
    with True show ?thesis by (simp add: Cons.IH keys_dict_set)
  next
    case False
    then have "filter (\<lambda>k. k \<noteq> f c \<and> k \<notin> set (keys acc)) (first_occurrences (map f cs))
             = filter (\<lambda>k. k \<notin> set (keys acc)) (filter (\<lambda>y. y \<noteq> f c) (first_occurrences (map f cs)))"
      by (auto simp: filter_filter intro: filter_cong)
    with False show ?thesis by (simp add: Cons.IH keys_dict_set)
  qed
qed

lemma map_of_foldl_dict_set:
  "map_of (foldl (\<lambda>a c. dict_set a (f c) c) acc cs) t
   = (if \<exists>c \<in> set cs. f c = t then Some (last (filter (\<lambda>c. f c = t) cs)) else map_of acc t)"
proof (induction cs rule: rev_induct)
  case Nil
  then show ?case by simp
next
  case (snoc c cs)
  then show ?case by (auto simp: map_of_dict_set)
qed

lemma config_tags_merged:
  assumes "wf_dict data"
  shows "map_of (merge_dict
                   [(''variables'', PDict vars), (''template_file'', PStr tfile),
                    (''tags'', PList [])] data []) ''tags''
         = Some (case map_of data ''tags'' of None \<Rightarrow> PList [] | Some tv \<Rightarrow> tv)"
proof (cases "map_of data ''tags''")
  case None
  then have "''tags'' \<notin> set (keys data)" by (simp add: map_of_None_keys)
  then show ?thesis using None by (simp add: merge_dict_def merge_loop_other)
next
  case (Some tv)
  from assms have d: "distinct (keys data)" by (simp add: wf_dict_def)
  have "py_eq (PList []) tv \<Longrightarrow> tv = PList []"
    by (cases tv) auto
  then show ?thesis using Some
    by (auto simp: merge_dict_def merge_loop_at [OF d Some] merged_value_def split: pyval.splits)
qed

lemma BuildVariant_init_tags:
  assumes "BuildVariant_init J W dir cfg tmpl tfile vars tgs = Inr v"
    and "config_data W dir cfg = Inr data"
    and "wf_dict data"
  shows "\<exists>cts. config_tag_definitions data = Some cts
             \<and> tags_loop [] (tgs @ forced_tags cts) = Inr (tags v)"
proof -
  let ?config = "merge_dict [(''variables'', PDict vars), (''template_file'', PStr tfile),
                    (''tags'', PList [])] data []"
  have m: "map_of ?config ''tags'' = Some (case map_of data ''tags'' of None \<Rightarrow> PList [] | Some tv \<Rightarrow> tv)"
    by (rule config_tags_merged [OF assms(3)])
  have e: "dict_list (PList []) = Some []" by (simp add: dict_list_def)
  from assms(1) show ?thesis
    unfolding BuildVariant_init_def Let_def assms(2) sum.case m
    by (auto simp: config_tag_definitions_def e
        split: option.splits sum.splits pyval.splits py_error.splits)
qed

lemma render_tags_loop_iff:
  "render_tags_loop J rs n sv bv sel primary cs acc = Some (Inr res) \<longleftrightarrow>
   (\<exists>ss. res = acc @ ss
        \<and> list_all2 (\<lambda>c s. TagCandidate_render J n c (merge_dict sv bv []) = Some (Inr s))
            (filter (\<lambda>c. selected rs c sel primary) (map snd cs)) ss)"
proof (induction cs arbitrary: acc)
  case Nil
  then show ?case by auto
next
  case (Cons x cs)
  obtain tag c where x: "x = (tag, c)" by (cases x)
  show ?case
  proof (cases "selected rs c sel primary")
    case False
    then show ?thesis by (simp add: x Cons.IH)
  next
    case True
    show ?thesis
    proof (cases "TagCandidate_render J n c (merge_dict sv bv [])")
      case None
      with True show ?thesis by (simp add: x list_all2_Cons1)
    next
      case (Some r)
      show ?thesis
      proof (cases r)
        case (Inl err)
        with True Some show ?thesis by (simp add: x list_all2_Cons1)
      next
        case (Inr s)
        with True Some show ?thesis
          by (auto simp: x Cons.IH list_all2_Cons1)
      qed
    qed
  qed
qed

lemma values_in_key_order:
  "distinct (map fst xs) \<Longrightarrow> map snd xs = map (\<lambda>k. the (map_of xs k)) (map fst xs)"
proof (induction xs)
  case Nil
  then show ?case by simp
next
  case (Cons x xs)
  obtain k c where x: "x = (k, c)" by (cases x)
  from Cons.prems have "\<forall>y \<in> set xs. fst y \<noteq> k"
    by (auto simp: x)
  then have "map (\<lambda>j. the (map_of (x # xs) j)) (map fst xs)
           = map (\<lambda>j. the (map_of xs j)) (map fst xs)"
    by (simp add: x)
  with Cons show ?case by (simp add: x)
qed

lemma forced_candidate:
  assumes "TagCandidate_init (merge_dict d [(''only_primary'', PBool False)] []) = Inr c"
  shows "only_primary c = False"
proof -
  have "map_of (merge_dict d [(''only_primary'', PBool False)] []) ''only_primary''
        = Some (merged_value (map_of d ''only_primary'') (PBool False) [] ''only_primary'')"
    by (simp add: merge_dict_def merge_loop_Cons map_of_dict_set del: merge_loop.simps(2))
  moreover have "merged_value (map_of d ''only_primary'') (PBool False) [] ''only_primary''
        = PBool False
      \<or> (\<exists>i. merged_value (map_of d ''only_primary'') (PBool False) [] ''only_primary''
             = PInt i)"
    by (auto simp: merged_value_def split: option.splits pyval.splits)
  ultimately show ?thesis using assms
    by (auto simp: TagCandidate_init_def bool_field_def split: if_splits option.splits pyval.splits)
qed

lemma forced_candidate_rest:
  assumes "TagCandidate_init d = Inr c"
  shows "TagCandidate_init (merge_dict d [(''only_primary'', PBool False)] [])
         = Inr (c\<lparr>only_primary := False\<rparr>)"
proof -
  let ?f = "merge_dict d [(''only_primary'', PBool False)] []"
  have other: "k \<noteq> ''only_primary'' \<Longrightarrow> map_of ?f k = map_of d k" for k
    by (simp add: merge_dict_def merge_loop_other keys_def del: merge_loop.simps(2))
  have op: "map_of ?f ''only_primary''
        = Some (merged_value (map_of d ''only_primary'') (PBool False) [] ''only_primary'')"
    by (simp add: merge_dict_def merge_loop_Cons map_of_dict_set del: merge_loop.simps(2))
  have ks: "keys ?f = keys d @ filter (\<lambda>k. k \<notin> set (keys d)) [''only_primary'']"
    using merge_loop_keys [of "[(''only_primary'', PBool False)]" d "[]"]
    by (simp add: merge_dict_def keys_def)
  from assms obtain b where b: "bool_field d ''only_primary'' = Some b"
    by (auto simp: TagCandidate_init_def split: if_splits option.splits pyval.splits)
  then have "merged_value (map_of d ''only_primary'') (PBool False) [] ''only_primary''
             = PBool False"
    by (auto simp: merged_value_def bool_field_def split: option.splits pyval.splits)
  with op have f: "bool_field ?f ''only_primary'' = Some False"
    by (simp add: bool_field_def)
  have n: "bool_field ?f ''negate'' = bool_field d ''negate''"
    by (simp add: bool_field_def other)
  from assms show ?thesis
    unfolding TagCandidate_init_def ks f n
    by (auto simp: other b split: if_splits option.splits pyval.splits)
qed

text \<open>
  Claim C10, as the code has it. The candidates of a variant are built from the
  build-level tag definitions followed by those of the variant's config file, the latter
  with \<^verbatim>\<open>only_primary\<close> set to false by the constructor (\<open>force\<close>), whatever the
  definition says. The variant keeps one candidate for each template string; the
  templates stand in the order of their first occurrences, and the candidate kept is
  that of the last definition with that template string. \<open>render_tags\<close> goes through
  the candidates kept in this order: it returns a list exactly when every selected
  candidate renders, and the list then holds the renderings of the selected candidates,
  in the order of the first occurrences of their template strings.
\<close>

theorem variant_tags_deduplicated:
  fixes J :: "('t, 'a) jinja"
  assumes "BuildVariant_init J W dir cfg tmpl tfile vars tgs = Inr v"
    and "config_data W dir cfg = Inr data"
    and "wf_dict data"
  shows "\<exists>cts cands.
      config_tag_definitions data = Some cts
    \<and> cands = map the_candidate tgs @ map (\<lambda>d. the_candidate (force d)) cts
    \<and> (\<forall>d \<in> set tgs. TagCandidate_init d = Inr (the_candidate d))
    \<and> (\<forall>d \<in> set cts. TagCandidate_init (force d) = Inr (the_candidate (force d)))
    \<and> keys (tags v) = first_occurrences (map template cands)
    \<and> distinct (keys (tags v))
    \<and> (\<forall>t \<in> set (keys (tags v)).
          map_of (tags v) t = Some (last (filter (\<lambda>c. template c = t) cands)))
    \<and> map snd (tags v)
        = map (\<lambda>t. last (filter (\<lambda>c. template c = t) cands))
            (first_occurrences (map template cands))
    \<and> (\<forall>rs n bvars sel primary res.
          render_tags J rs n v bvars sel primary = Some (Inr res)
          \<longleftrightarrow> list_all2
                (\<lambda>c s. TagCandidate_render J n c (merge_dict (variables v) bvars [])
                        = Some (Inr s))
                (filter (\<lambda>c. selected rs c sel primary) (map snd (tags v))) res)
    \<and> (\<forall>d \<in> set cts. only_primary (the_candidate (force d)) = False
          \<and> (\<forall>c. TagCandidate_init d = Inr c
                \<longrightarrow> the_candidate (force d) = c\<lparr>only_primary := False\<rparr>))"
proof -
  from BuildVariant_init_tags [OF assms] obtain cts where
    cts: "config_tag_definitions data = Some cts"
    and loop: "tags_loop [] (tgs @ forced_tags cts) = Inr (tags v)"
    by blast
  define cands where "cands = map the_candidate tgs @ map (\<lambda>d. the_candidate (force d)) cts"
  have cs: "map the_candidate (tgs @ forced_tags cts) = cands"
    by (simp add: cands_def forced_tags_def force_def comp_def)
  from tags_loop_foldl [OF loop] have
    fold: "tags v = foldl (\<lambda>a c. dict_set a (template c) c) [] cands"
    and ok: "\<forall>d \<in> set (tgs @ forced_tags cts). TagCandidate_init d = Inr (the_candidate d)"
    unfolding cs by blast+
  from ok have ok1: "\<forall>d \<in> set tgs. TagCandidate_init d = Inr (the_candidate d)"
    by simp
  from ok have ok2: "\<forall>d \<in> set cts. TagCandidate_init (force d) = Inr (the_candidate (force d))"
    by (simp add: forced_tags_def force_def)
  have k: "keys (tags v) = first_occurrences (map template cands)"
    unfolding fold keys_foldl_dict_set by (simp add: keys_def)
  have d: "distinct (keys (tags v))"
    unfolding k by (rule first_occurrences_distinct)
  have m: "\<forall>t \<in> set (keys (tags v)).
          map_of (tags v) t = Some (last (filter (\<lambda>c. template c = t) cands))"
  proof
    fix t assume "t \<in> set (keys (tags v))"
    then have "\<exists>c \<in> set cands. template c = t"
      by (auto simp: k first_occurrences_set)
    then show "map_of (tags v) t = Some (last (filter (\<lambda>c. template c = t) cands))"
      unfolding fold map_of_foldl_dict_set by simp
  qed
  have "map snd (tags v) = map (\<lambda>t. the (map_of (tags v) t)) (keys (tags v))"
    using d unfolding keys_def by (rule values_in_key_order)
  also have "\<dots> = map (\<lambda>t. last (filter (\<lambda>c. template c = t) cands)) (keys (tags v))"
    using m by simp
  finally have o: "map snd (tags v)
        = map (\<lambda>t. last (filter (\<lambda>c. template c = t) cands))
            (first_occurrences (map template cands))"
    unfolding k .
  have r: "\<forall>rs n bvars sel primary res.
          render_tags J rs n v bvars sel primary = Some (Inr res)
          \<longleftrightarrow> list_all2
                (\<lambda>c s. TagCandidate_render J n c (merge_dict (variables v) bvars [])
                        = Some (Inr s))
                (filter (\<lambda>c. selected rs c sel primary) (map snd (tags v))) res"
    by (simp add: render_tags_def render_tags_loop_iff)
  have f: "\<forall>d \<in> set cts. only_primary (the_candidate (force d)) = False
          \<and> (\<forall>c. TagCandidate_init d = Inr c
                \<longrightarrow> the_candidate (force d) = c\<lparr>only_primary := False\<rparr>)"
  proof
    fix d assume "d \<in> set cts"
    with ok2 have i: "TagCandidate_init (force d) = Inr (the_candidate (force d))" by blast
    then have 1: "only_primary (the_candidate (force d)) = False"
      unfolding force_def by (rule forced_candidate)
    have 2: "\<forall>c. TagCandidate_init d = Inr c
                \<longrightarrow> the_candidate (force d) = c\<lparr>only_primary := False\<rparr>"
      using i forced_candidate_rest [of d] by (auto simp: force_def)
    from 1 2 show "only_primary (the_candidate (force d)) = False
          \<and> (\<forall>c. TagCandidate_init d = Inr c
                \<longrightarrow> the_candidate (force d) = c\<lparr>only_primary := False\<rparr>)" by blast
  qed
  from cts cands_def ok1 ok2 k d m o r f show ?thesis by blast
qed

text \<open>The theorem at work on the variant of \<^verbatim>\<open>variants/1.0\<close>, whose config file
  defines \<^verbatim>\<open>edge\<close> and then \<^verbatim>\<open>latest\<close> a second time: for the primary source tag and
  the selection \<^verbatim>\<open>v1\<close> all three candidates are rendered, \<^verbatim>\<open>latest\<close> in the place of
  its first definition; for the selection \<^verbatim>\<open>x\<close> only \<^verbatim>\<open>edge\<close> is, by the selectors of
  the last definition of \<^verbatim>\<open>latest\<close>.\<close>

lemma tags_variant_init:
  "BuildVariant_init (mini_jinja []) tags_world ''variants/1.0'' (Some ''image-build.yml'')
     None ''Dockerfile.j2'' [] build_level_tags = Inr tags_variant"
  by (simp add: BuildVariant_init_def config_data_def tags_world_def bare_world_def
      listing_world_def build_level_tags_def tags_variant_def mini_jinja_def path_join_def
      merge_dict_def dict_list_def is_dict_def forced_tags_def TagCandidate_init_def keys_def
      str_list_def bool_field_def)

lemma tags_world_data:
  "config_data tags_world ''variants/1.0'' (Some ''image-build.yml'')
   = Inr [(''tags'', PList (map PDict config_level_tags))]"
  by (simp add: config_data_def tags_world_def bare_world_def listing_world_def path_join_def
      config_level_tags_def)

theorem variant_tags_deduplicated_witness:
  "BuildVariant_init (mini_jinja []) tags_world ''variants/1.0'' (Some ''image-build.yml'')
     None ''Dockerfile.j2'' [] build_level_tags = Inr tags_variant
   \<and> config_data tags_world ''variants/1.0'' (Some ''image-build.yml'')
      = Inr [(''tags'', PList (map PDict config_level_tags))]
   \<and> wf_dict [(''tags'', PList (map PDict config_level_tags))]
   \<and> map template (map the_candidate build_level_tags
                    @ map (\<lambda>d. the_candidate (force d)) config_level_tags)
      = [''latest'', ''stable'', ''edge'', ''latest'']
   \<and> keys (tags tags_variant) = [''latest'', ''stable'', ''edge'']
   \<and> map_of (tags tags_variant) ''latest''
      = Some \<lparr>template = ''latest'', selectors = [''^v''], negate = False,
              only_primary = False\<rparr>
   \<and> render_tags (mini_jinja []) caret_search 1 tags_variant [] (Some ''v1'') True
      = Some (Inr [''latest'', ''stable'', ''edge''])
   \<and> render_tags (mini_jinja []) caret_search 1 tags_variant [] (Some ''x'') True
      = Some (Inr [''edge''])"
proof -
  let ?J = "mini_jinja []"
  have w: "wf_dict [(''tags'', PList (map PDict config_level_tags))]"
    by (simp add: wf_dict_def keys_def)
  have c: "map template (map the_candidate build_level_tags
                    @ map (\<lambda>d. the_candidate (force d)) config_level_tags)
      = [''latest'', ''stable'', ''edge'', ''latest'']"
    by code_simp
  from variant_tags_deduplicated [OF tags_variant_init tags_world_data w]
  have r: "render_tags ?J caret_search 1 tags_variant [] sel True = Some (Inr res)
          \<longleftrightarrow> list_all2
                (\<lambda>c s. TagCandidate_render ?J 1 c (merge_dict (variables tags_variant) [] [])
                        = Some (Inr s))
                (filter (\<lambda>c. selected caret_search c sel True) (map snd (tags tags_variant)))
                res" for sel res
    by blast
  have v: "render_tags ?J caret_search 1 tags_variant [] (Some ''v1'') True
      = Some (Inr [''latest'', ''stable'', ''edge''])"
    unfolding r by code_simp
  have x: "render_tags ?J caret_search 1 tags_variant [] (Some ''x'') True
      = Some (Inr [''edge''])"
    unfolding r by code_simp
  from tags_variant_init tags_world_data w c v x show ?thesis
    by (simp add: tags_variant_def keys_def)
qed

text \<open>Claim C10 as stated fails for \<^verbatim>\<open>only_primary\<close>: the last definition of
  \<^verbatim>\<open>latest\<close> is the config file's, which says \<^verbatim>\<open>only_primary: true\<close>, and a candidate
  with that rule is not selected for a source tag that is not the primary one; the
  variant renders \<^verbatim>\<open>latest\<close> for such a source tag all the same.\<close>

theorem variant_tags_only_primary_counterexample:
  "BuildVariant_init (mini_jinja []) tags_world ''variants/1.0'' (Some ''image-build.yml'')
     None ''Dockerfile.j2'' [] build_level_tags = Inr tags_variant
   \<and> config_tag_definitions [(''tags'', PList (map PDict config_level_tags))]
      = Some config_level_tags
   \<and> TagCandidate_init (last config_level_tags)
      = Inr \<lparr>template = ''latest'', selectors = [''^v''], negate = False,
             only_primary = True\<rparr>
   \<and> selected caret_search
        \<lparr>template = ''latest'', selectors = [''^v''], negate = False, only_primary = True\<rparr>
        (Some ''v1'') False = False
   \<and> render_tags (mini_jinja []) caret_search 1 tags_variant [] (Some ''v1'') False
      = Some (Inr [''latest'', ''edge''])"
  by code_simp
section \<open>Properties of Builder.build: dry run\<close>

lemma quiet_refl: "quiet st st"
  by (simp add: quiet_def)

lemma quiet_same: "out st' = out st \<Longrightarrow> quiet st st'"
  by (simp add: quiet_def)

lemma quiet_trans: "quiet a b \<Longrightarrow> quiet b c \<Longrightarrow> quiet a c"
  by (auto simp: quiet_def)

lemma quiet_and_then:
  assumes "quiet s0 (fst m)"
    and "\<And>s x. quiet s0 s \<Longrightarrow> quiet s0 (fst (f s x))"
  shows "quiet s0 (fst (and_then m f))"
  using assms by (auto simp: and_then_def split: prod.splits option.splits sum.splits)

lemma out_and_then:
  assumes "out (fst m) = e"
    and "\<And>s x. out s = e \<Longrightarrow> out (fst (f s x)) = e"
  shows "out (fst (and_then m f)) = e"
  using assms by (auto simp: and_then_def split: prod.splits option.splits sum.splits)

lemma root_phase_out: "out (fst (root_phase J rs W n B build primary st)) = out st"
  unfolding root_phase_def
  by (cases "map_of (variants build) ''.''")
     (auto intro!: out_and_then simp: Let_def split: prod.splits)

lemma variant_phase_out:
  "out (fst (variant_phase J rs W n B build source_tag primary ts dockerfile ctx st)) = out st"
  unfolding variant_phase_def
  by (cases "map_of (variants build) source_tag")
     (auto intro!: out_and_then simp: Let_def split: prod.splits)

lemma dry_run_report_prints:
  "list_all is_print (dry_run_report W build source_tag ts root_files fs dockerfile)"
  by (simp add: dry_run_report_def is_print_def)

lemma publish_dry_run:
  "dry_run B \<Longrightarrow>
   quiet st (fst (publish W B build repository source_tag ts root_files fs dockerfile ctx has st))"
  by (auto simp: publish_def quiet_def dry_run_report_prints)

lemma source_tag_iteration_dry_run:
  assumes "dry_run B"
  shows "quiet st (fst (source_tag_iteration J rs W n B build timestamp repository source_tag
                          has st))"
proof (cases "inject build source_tag timestamp (self_variables st)")
  case (Inl err)
  then show ?thesis by (simp add: source_tag_iteration_def quiet_refl)
next
  case (Inr pv)
  obtain primary bvars where pv: "pv = (primary, bvars)" by (cases pv)
  let ?st0 = "st\<lparr>self_variables := bvars\<rparr>"
  have 0: "quiet st (fst (root_phase J rs W n B build primary ?st0))"
    by (rule quiet_same) (simp add: root_phase_out)
  have 1: "quiet st (fst (variant_phase J rs W n B build source_tag primary ts d c s1))"
    if "quiet st s1" for ts d c s1
    using that by (auto simp: quiet_def variant_phase_out)
  show ?thesis
    unfolding source_tag_iteration_def Inr pv
    by (auto intro!: quiet_and_then 0 1 quiet_trans [OF _ publish_dry_run [OF assms]]
        split: prod.splits)
qed

lemma source_tags_loop_dry_run:
  assumes "dry_run B"
  shows "quiet st (fst (source_tags_loop J rs W n B build timestamp repository source_tags
                          has st))"
proof (induction source_tags arbitrary: has st)
  case Nil
  then show ?case by (simp add: quiet_refl)
next
  case (Cons source_tag rest)
  show ?case
    by (auto intro!: quiet_and_then source_tag_iteration_dry_run [OF assms]
        quiet_trans [OF _ Cons.IH])
qed

lemma after_tags_dry_run:
  "dry_run B \<Longrightarrow> quiet st (fst (after_tags W B repository has st))"
  by (auto simp: after_tags_def save_phase_def quiet_def is_print_def)

lemma quiet_handler:
  assumes "quiet st (fst X)"
  shows "quiet st (fst (case X of
            (st1, Some (Inl (BuildError m))) \<Rightarrow> (st1\<lparr>out := out st1 @ [Print (g st1 m)]\<rparr>, r0)
          | r \<Rightarrow> r))"
proof -
  have last: "quiet s (s\<lparr>out := out s @ [Print x]\<rparr>)" for s x
    by (simp add: quiet_def is_print_def)
  obtain st1 res where X: "X = (st1, res)" by (cases X)
  with assms have q: "quiet st st1" by simp
  show ?thesis
    unfolding X using q quiet_trans [OF q last]
    by (simp split: option.splits sum.splits py_error.splits)
qed

lemma build_one_dry_run:
  assumes "dry_run B"
  shows "quiet st (fst (build_one J rs W n B i build st))"
proof -
  let ?st0 = "st\<lparr>out := out st @ [Print (''Build: '' @ name build),
                 Print (''  Repository: '' @ path_join (namespace build) (name build)
                        @ [newline])]\<rparr>"
  have 0: "quiet st ?st0" by (simp add: quiet_def is_print_def)
  have body: "quiet st (fst (and_then
        (source_tags_loop J rs W n B build (now W i)
           (path_join (namespace build) (name build)) source_tags False ?st0)
        (\<lambda>st1 has. after_tags W B (path_join (namespace build) (name build)) has st1)))"
    for source_tags
  proof (rule quiet_and_then)
    show "quiet st (fst (source_tags_loop J rs W n B build (now W i)
           (path_join (namespace build) (name build)) source_tags False ?st0))"
      by (rule quiet_trans [OF 0 source_tags_loop_dry_run [OF assms]])
  next
    fix s x assume "quiet st s"
    then show "quiet st (fst (after_tags W B (path_join (namespace build) (name build)) x s))"
      by (rule quiet_trans [OF _ after_tags_dry_run [OF assms]])
  qed
  have inner: "quiet st (fst (case map_of (source build) ''tags'' of
                 None \<Rightarrow> (?st0, Some (Inl (KeyError ''tags'')))
               | Some v \<Rightarrow>
                   (case str_list v of
                      None \<Rightarrow> (?st0, Some (Inl NotModelled))
                    | Some source_tags \<Rightarrow>
                        and_then
                          (source_tags_loop J rs W n B build (now W i)
                             (path_join (namespace build) (name build)) source_tags False ?st0)
                          (\<lambda>st1 has. after_tags W B
                             (path_join (namespace build) (name build)) has st1))))"
    using 0 body by (simp split: option.splits)
  show ?thesis
    unfolding build_one_def Let_def by (rule quiet_handler [OF inner])
qed

lemma builds_loop_dry_run:
  assumes "dry_run B"
  shows "quiet st (fst (builds_loop J rs W n B i bs st))"
proof (induction bs arbitrary: i st)
  case Nil
  then show ?case by (simp add: quiet_refl)
next
  case (Cons build rest)
  show ?case
    by (auto intro!: quiet_and_then build_one_dry_run [OF assms] quiet_trans [OF _ Cons.IH]
        split: option.splits)
qed

text \<open>
  Claim C9. In dry-run mode, whatever the manifest, the other flags, the templates and
  the answers of the world, and whether the run returns, raises or does not finish, all
  that \<^verbatim>\<open>build\<close> does is print: no engine build, no image lookup or tagging, no
  push, no export.
\<close>

theorem dry_run_only_prints:
  assumes "dry_run B"
  shows "\<exists>es. out (fst (Builder_build J rs W n B st)) = out st @ es \<and> list_all is_print es"
proof (cases "collect_root_excludes (builds B) []")
  case (Inl err)
  then show ?thesis by (simp add: Builder_build_def)
next
  case (Inr rx)
  have "quiet (st\<lparr>root_excludes := rx\<rparr>)
          (fst (builds_loop J rs W n B 0 (builds B) (st\<lparr>root_excludes := rx\<rparr>)))"
    by (rule builds_loop_dry_run [OF assms])
  then show ?thesis by (simp add: Builder_build_def Inr quiet_def)
qed

text \<open>The theorem at work: a dry run of the example build, with push and export asked
  for.\<close>

theorem dry_run_only_prints_witness:
  "dry_run ((example_builder True default_tags)\<lparr>push := True, save := True\<rparr>)
   \<and> (\<exists>es. out (fst (Builder_build example_jinja caret_search override_world 1
                       ((example_builder True default_tags)\<lparr>push := True, save := True\<rparr>)
                       (initial_state [])))
            = out (initial_state []) @ es \<and> list_all is_print es)
   \<and> out (fst (Builder_build example_jinja caret_search override_world 1
                 ((example_builder True default_tags)\<lparr>push := True, save := True\<rparr>)
                 (initial_state [])))
      = [Print ''Build: app'', Print (''  Repository: image-build/app'' @ [newline]),
         Print ''  Source: app:1.0'', Print ''    Tags:'', Print ''      latest'',
         Print ''    Base files:'', Print [], Print ''    Variant files:'',
         Print [], Print ''    Dockerfile:'', Print ''      FROM scratch'',
         Print ''  Source: app:2.0'', Print ''    Tags:'', Print ''      latest'',
         Print ''    Base files:'', Print [], Print ''    Variant files:'',
         Print [], Print ''    Dockerfile:'', Print ''      FROM scratch'',
         Print ''The build has no applicable destination for any source tag!'']"
proof -
  let ?B = "(example_builder True default_tags)\<lparr>push := True, save := True\<rparr>"
  have d: "dry_run ?B" by (simp add: example_builder_def)
  have o: "out (fst (Builder_build example_jinja caret_search override_world 1 ?B
                 (initial_state [])))
      = [Print ''Build: app'', Print (''  Repository: image-build/app'' @ [newline]),
         Print ''  Source: app:1.0'', Print ''    Tags:'', Print ''      latest'',
         Print ''    Base files:'', Print [], Print ''    Variant files:'',
         Print [], Print ''    Dockerfile:'', Print ''      FROM scratch'',
         Print ''  Source: app:2.0'', Print ''    Tags:'', Print ''      latest'',
         Print ''    Base files:'', Print [], Print ''    Variant files:'',
         Print [], Print ''    Dockerfile:'', Print ''      FROM scratch'',
         Print ''The build has no applicable destination for any source tag!'']"
    by code_simp
  from dry_run_only_prints [OF d, of example_jinja caret_search override_world 1
      "initial_state []"] d o
  show ?thesis by blast
qed

section \<open>Properties of Builder.build: override variants\<close>

lemma example_build_init:
  "Build_init example_jinja override_world ''app''
     [(''tags'', PList [PStr ''1.0'', PStr ''2.0''])] ''.'' ''variants'' ''image-build''
     ''Dockerfile.j2'' [] default_tags = Inr (example_build default_tags)"
  by code_simp

lemma example_build_init_no_tags:
  "Build_init example_jinja override_world ''app''
     [(''tags'', PList [PStr ''1.0'', PStr ''2.0''])] ''.'' ''variants'' ''image-build''
     ''Dockerfile.j2'' [] [] = Inr (example_build [])"
  by code_simp

lemma variant_phase_tags:
  assumes "map_of (variants build) source_tag = Some v"
    and "variant_phase J rs W n B build source_tag primary ts dockerfile ctx st
         = (st', Some (Inr (ts', dockerfile', fs, ctx')))"
  shows "render_tags J rs n v (self_variables st) (self_select B) primary = Some (Inr ts')"
  using assms
  by (auto simp: variant_phase_def and_then_def Let_def
      split: option.splits sum.splits prod.splits if_splits)

lemma render_tags_no_candidates:
  "tags v = [] \<Longrightarrow> render_tags J rs n v vars sel primary = Some (Inr [])"
  by (simp add: render_tags_def)

lemma publish_tags:
  assumes "\<not> dry_run B" and "ts \<noteq> []"
    and "publish W B build repository source_tag ts root_files fs dockerfile ctx has st
         = (st', Some (Inr has'))"
  shows "has' \<and> (\<exists>eff c image_id.
           ctx = Some c \<and> build_image W c (out st) = (eff, Inr image_id)
         \<and> out st' = eff @ ImagesGet image_id # map (ImageTag image_id repository) ts)"
  using assms
  by (auto simp: publish_def split: option.splits prod.splits sum.splits)

lemma variants_loop_built:
  fixes J :: "('t, 'a) jinja" and vs :: "(string \<times> 't BuildVariant) list"
  assumes "variants_loop J W vdir vars tgs vs nms = Inr vs'"
    and "map_of vs' t = Some v"
  shows "map_of vs t = Some v
       \<or> (\<exists>tmpl. BuildVariant_init J W (path_join vdir t) (Some ''image-build.yml'') tmpl
                    ''Dockerfile.j2'' vars tgs = Inr v)"
  using assms
proof (induction nms arbitrary: vs)
  case Nil
  then show ?case by simp
next
  case (Cons nm nms)
  show ?case
  proof (cases "isdir W (path_join vdir nm)")
    case False
    with Cons.prems have "variants_loop J W vdir vars tgs vs nms = Inr vs'" by simp
    from Cons.IH [OF this Cons.prems(2)] show ?thesis .
  next
    case True
    with Cons.prems(1) obtain root :: "'t BuildVariant" and v0 where
      v0: "BuildVariant_init J W (path_join vdir nm) (Some ''image-build.yml'')
              (bv_template root) ''Dockerfile.j2'' vars tgs = Inr v0"
      and rest: "variants_loop J W vdir vars tgs (dict_set vs nm v0) nms = Inr vs'"
      by (auto simp: Let_def split: option.splits sum.splits)
    from Cons.IH [OF rest Cons.prems(2)] v0 show ?thesis
      by (auto simp: map_of_dict_set split: if_splits)
  qed
qed

lemma Build_init_override:
  fixes J :: "('t, 'a) jinja" and b :: "'t Build"
  assumes "Build_init J W nm src rdir vdir ns tfile vars tgs = Inr b"
    and "map_of (variants b) t = Some v" and "t \<noteq> ''.''"
  shows "\<exists>tmpl. BuildVariant_init J W (path_join (path_join rdir vdir) t)
                   (Some ''image-build.yml'') tmpl ''Dockerfile.j2'' vars tgs = Inr v"
proof -
  from assms(1) obtain root :: "'t BuildVariant" and stags vs where
    loop: "variants_loop J W (path_join rdir vdir) vars tgs [(''.'', root)] stags = Inr vs"
    and b: "variants b = vs"
    by (auto simp: Build_init_def Let_def split: sum.splits option.splits if_splits)
  from assms(2) b have "map_of vs t = Some v" by simp
  from variants_loop_built [OF loop this] assms(3) show ?thesis by simp
qed

lemma and_then_returns:
  "and_then m f = (s', Some (Inr y)) \<Longrightarrow>
   \<exists>s x. m = (s, Some (Inr x)) \<and> f s x = (s', Some (Inr y))"
  by (auto simp: and_then_def split: prod.splits option.splits sum.splits)

lemma source_tag_iteration_steps:
  assumes "source_tag_iteration J rs W n B build timestamp repository source_tag has st
           = (st', Some (Inr has'))"
  shows "\<exists>primary bvars st1 ts dockerfile root_files ctx st2 ts' dockerfile' fs ctx'.
      inject build source_tag timestamp (self_variables st) = Inr (primary, bvars)
    \<and> root_phase J rs W n B build primary (st\<lparr>self_variables := bvars\<rparr>)
       = (st1, Some (Inr (ts, dockerfile, root_files, ctx)))
    \<and> variant_phase J rs W n B build source_tag primary ts dockerfile ctx st1
       = (st2, Some (Inr (ts', dockerfile', fs, ctx')))
    \<and> publish W B build repository source_tag ts' root_files fs dockerfile' ctx' has st2
       = (st', Some (Inr has'))"
proof -
  from assms obtain primary bvars where
    i: "inject build source_tag timestamp (self_variables st) = Inr (primary, bvars)"
    and 1: "and_then (root_phase J rs W n B build primary (st\<lparr>self_variables := bvars\<rparr>))
            (\<lambda>st1 (ts, dockerfile, root_files, ctx).
               and_then (variant_phase J rs W n B build source_tag primary ts dockerfile ctx st1)
                 (\<lambda>st2 (ts', dockerfile', fs, ctx').
                    publish W B build repository source_tag ts' root_files fs dockerfile' ctx'
                      has st2))
          = (st', Some (Inr has'))"
    by (auto simp: source_tag_iteration_def split: sum.splits prod.splits)
  from and_then_returns [OF 1] obtain st1 x where
    r: "root_phase J rs W n B build primary (st\<lparr>self_variables := bvars\<rparr>) = (st1, Some (Inr x))"
    and 2: "(case x of (ts, dockerfile, root_files, ctx) \<Rightarrow>
               and_then (variant_phase J rs W n B build source_tag primary ts dockerfile ctx st1)
                 (\<lambda>st2 (ts', dockerfile', fs, ctx').
                    publish W B build repository source_tag ts' root_files fs dockerfile' ctx'
                      has st2))
          = (st', Some (Inr has'))"
    by blast
  obtain ts dockerfile root_files ctx where x: "x = (ts, dockerfile, root_files, ctx)"
    by (cases x)
  from 2 have 3: "and_then (variant_phase J rs W n B build source_tag primary ts dockerfile ctx st1)
                 (\<lambda>st2 (ts', dockerfile', fs, ctx').
                    publish W B build repository source_tag ts' root_files fs dockerfile' ctx'
                      has st2)
          = (st', Some (Inr has'))"
    by (simp add: x)
  from and_then_returns [OF 3] obtain st2 y where
    v: "variant_phase J rs W n B build source_tag primary ts dockerfile ctx st1
        = (st2, Some (Inr y))"
    and 4: "(case y of (ts', dockerfile', fs, ctx') \<Rightarrow>
               publish W B build repository source_tag ts' root_files fs dockerfile' ctx'
                 has st2)
          = (st', Some (Inr has'))"
    by blast
  obtain ts' dockerfile' fs ctx' where y: "y = (ts', dockerfile', fs, ctx')"
    by (cases y)
  from i r v 4 show ?thesis
    unfolding x y by auto
qed

lemma source_tag_iteration_override:
  fixes J :: "('t, 'a) jinja"
  assumes v: "map_of (variants build) source_tag = Some v"
    and it: "source_tag_iteration J rs W n B build timestamp repository source_tag has st
           = (st', Some (Inr has'))"
  shows "\<exists>primary bvars ts'.
      inject build source_tag timestamp (self_variables st) = Inr (primary, bvars)
    \<and> render_tags J rs n v
         (self_variables (fst (root_phase J rs W n B build primary
                                 (st\<lparr>self_variables := bvars\<rparr>))))
         (self_select B) primary = Some (Inr ts')
    \<and> (dry_run B \<longrightarrow> has' = has
          \<and> (\<exists>root_files fs dockerfile'.
                out st' = out st @ dry_run_report W build source_tag ts' root_files fs
                                     dockerfile'))
    \<and> (\<not> dry_run B \<and> ts' = [] \<longrightarrow>
          has' = has \<and> out st' = out st @ [no_destination source_tag])
    \<and> (\<not> dry_run B \<and> ts' \<noteq> [] \<longrightarrow>
          has' \<and> (\<exists>eff c image_id.
              build_image W c (out st) = (eff, Inr image_id)
            \<and> out st' = eff @ ImagesGet image_id # map (ImageTag image_id repository) ts'))"
proof -
  from source_tag_iteration_steps [OF it]
  obtain primary bvars st1 ts dockerfile root_files ctx st2 ts' dockerfile' fs ctx' where
    i: "inject build source_tag timestamp (self_variables st) = Inr (primary, bvars)"
    and r: "root_phase J rs W n B build primary (st\<lparr>self_variables := bvars\<rparr>)
       = (st1, Some (Inr (ts, dockerfile, root_files, ctx)))"
    and vp: "variant_phase J rs W n B build source_tag primary ts dockerfile ctx st1
       = (st2, Some (Inr (ts', dockerfile', fs, ctx')))"
    and p: "publish W B build repository source_tag ts' root_files fs dockerfile' ctx' has st2
       = (st', Some (Inr has'))"
    by blast
  have st1: "fst (root_phase J rs W n B build primary (st\<lparr>self_variables := bvars\<rparr>)) = st1"
    by (simp add: r)
  from root_phase_out [of J rs W n B build primary "st\<lparr>self_variables := bvars\<rparr>"]
  have o1: "out st1 = out st"
    by (simp add: r)
  from variant_phase_out [of J rs W n B build source_tag primary ts dockerfile ctx st1]
  have o2: "out st2 = out st"
    by (simp add: vp o1)
  have t: "render_tags J rs n v (self_variables st1) (self_select B) primary = Some (Inr ts')"
    by (rule variant_phase_tags [OF v vp])
  have d: "has' = has
          \<and> (\<exists>root_files fs dockerfile'.
                out st' = out st @ dry_run_report W build source_tag ts' root_files fs
                                     dockerfile')" if "dry_run B"
  proof -
    from p that have "has' = has"
      and "out st' = out st @ dry_run_report W build source_tag ts' root_files fs dockerfile'"
      by (auto simp: publish_def o2)
    then show ?thesis by blast
  qed
  have e: "has' = has \<and> out st' = out st @ [no_destination source_tag]"
    if "\<not> dry_run B" and "ts' = []"
    using p that by (auto simp: publish_def o2)
  have b: "has' \<and> (\<exists>eff c image_id.
              build_image W c (out st) = (eff, Inr image_id)
            \<and> out st' = eff @ ImagesGet image_id # map (ImageTag image_id repository) ts')"
    if "\<not> dry_run B" and "ts' \<noteq> []"
    using publish_tags [OF that p] by (auto simp: o2)
  from t have t2: "render_tags J rs n v
         (self_variables (fst (root_phase J rs W n B build primary
                                 (st\<lparr>self_variables := bvars\<rparr>))))
         (self_select B) primary = Some (Inr ts')"
    by (simp add: st1)
  have "inject build source_tag timestamp (self_variables st) = Inr (primary, bvars)
    \<and> render_tags J rs n v
         (self_variables (fst (root_phase J rs W n B build primary
                                 (st\<lparr>self_variables := bvars\<rparr>))))
         (self_select B) primary = Some (Inr ts')
    \<and> (dry_run B \<longrightarrow> has' = has
          \<and> (\<exists>root_files fs dockerfile'.
                out st' = out st @ dry_run_report W build source_tag ts' root_files fs
                                     dockerfile'))
    \<and> (\<not> dry_run B \<and> ts' = [] \<longrightarrow>
          has' = has \<and> out st' = out st @ [no_destination source_tag])
    \<and> (\<not> dry_run B \<and> ts' \<noteq> [] \<longrightarrow>
          has' \<and> (\<exists>eff c image_id.
              build_image W c (out st) = (eff, Inr image_id)
            \<and> out st' = eff @ ImagesGet image_id # map (ImageTag image_id repository) ts'))"
    using i t2 d e b by blast
  then show ?thesis by blast
qed

text \<open>
  Claim C5, as the code has it. In an iteration for a source tag with an override
  variant that comes to its end, the tag list that reaches the build step is the list
  the override variant renders (from the variables as the root step left them),
  whatever the root variant rendered: outside a dry run an empty list skips the engine
  and prints the message, and a non-empty list is built and the image gets exactly
  these tags, in this order; a dry run prints its report with this list and no message
  (1). The candidates of the override variant are the build-level tag definitions
  followed by those of its own config file (2): a variant directory that declares no
  tags renders the build-level tags again. A variant with no candidates at all renders
  the empty list (3).
\<close>

theorem override_tags_replace:
  fixes J :: "('t, 'a) jinja"
  shows "(map_of (variants build) source_tag = Some v
      \<and> source_tag_iteration J rs W n B build timestamp repository source_tag has st
         = (st', Some (Inr has'))
      \<longrightarrow> (\<exists>primary bvars ts'.
            inject build source_tag timestamp (self_variables st) = Inr (primary, bvars)
          \<and> render_tags J rs n v
               (self_variables (fst (root_phase J rs W n B build primary
                                       (st\<lparr>self_variables := bvars\<rparr>))))
               (self_select B) primary = Some (Inr ts')
          \<and> (dry_run B \<longrightarrow> has' = has
                \<and> (\<exists>root_files fs dockerfile'.
                      out st' = out st @ dry_run_report W build source_tag ts' root_files fs
                                           dockerfile'))
          \<and> (\<not> dry_run B \<and> ts' = [] \<longrightarrow>
                has' = has \<and> out st' = out st @ [no_destination source_tag])
          \<and> (\<not> dry_run B \<and> ts' \<noteq> [] \<longrightarrow>
                has' \<and> (\<exists>eff c image_id.
                    build_image W c (out st) = (eff, Inr image_id)
                  \<and> out st' = eff @ ImagesGet image_id
                                 # map (ImageTag image_id repository) ts'))))
   \<and> (Build_init J W nm src rdir vdir ns tfile vars tgs = Inr build
      \<and> map_of (variants build) source_tag = Some v \<and> source_tag \<noteq> ''.''
      \<and> config_data W (directory v) (config_file v) = Inr data \<and> wf_dict data
      \<longrightarrow> (\<exists>cts. config_tag_definitions data = Some cts
                \<and> tags_loop [] (tgs @ forced_tags cts) = Inr (tags v)))
   \<and> (tags v = [] \<longrightarrow> render_tags J rs n v vars' sel primary' = Some (Inr []))"
proof -
  have 2: "\<exists>cts. config_tag_definitions data = Some cts
                \<and> tags_loop [] (tgs @ forced_tags cts) = Inr (tags v)"
    if init: "Build_init J W nm src rdir vdir ns tfile vars tgs = Inr build"
      and v: "map_of (variants build) source_tag = Some v" and nr: "source_tag \<noteq> ''.''"
      and cd: "config_data W (directory v) (config_file v) = Inr data"
      and wf: "wf_dict data"
  proof -
    from Build_init_override [OF init v nr] obtain tmpl where
      bv: "BuildVariant_init J W (path_join (path_join rdir vdir) source_tag)
             (Some ''image-build.yml'') tmpl ''Dockerfile.j2'' vars tgs = Inr v"
      by blast
    then have dc: "directory v = path_join (path_join rdir vdir) source_tag"
      "config_file v = Some ''image-build.yml''"
      by (auto simp: BuildVariant_init_def Let_def
          split: option.splits sum.splits pyval.splits py_error.splits)
    from cd have "config_data W (path_join (path_join rdir vdir) source_tag)
                    (Some ''image-build.yml'') = Inr data"
      unfolding dc .
    from BuildVariant_init_tags [OF bv this wf] show ?thesis .
  qed
  show ?thesis
    using source_tag_iteration_override [of build source_tag v J rs W n B timestamp repository
        has st st' has']
      2 render_tags_no_candidates [of v J rs n vars' sel primary']
    by blast
qed

text \<open>The theorem at work on the iteration for \<^verbatim>\<open>1.0\<close> of the example build: the
  override variant renders the build-level \<^verbatim>\<open>latest\<close>, and the image that is built gets
  this tag.\<close>

theorem override_tags_replace_witness:
  "map_of (variants (example_build default_tags)) ''1.0''
     = Some (snd (example_variants default_tags ! 1))
   \<and> snd (source_tag_iteration example_jinja caret_search override_world 1
             (example_builder False default_tags) (example_build default_tags)
             ''20170101000000'' ''image-build/app'' ''1.0'' False (initial_state []))
     = Some (Inr True)
   \<and> \<not> dry_run (example_builder False default_tags)
   \<and> (\<exists>bvars.
        inject (example_build default_tags) ''1.0'' ''20170101000000''
          (self_variables (initial_state [])) = Inr (True, bvars)
      \<and> render_tags example_jinja caret_search 1 (snd (example_variants default_tags ! 1))
          (self_variables (fst (root_phase example_jinja caret_search override_world 1
             (example_builder False default_tags) (example_build default_tags) True
             ((initial_state [])\<lparr>self_variables := bvars\<rparr>))))
          None True = Some (Inr [''latest'']))
   \<and> (\<exists>eff c image_id.
        build_image override_world c [] = (eff, Inr image_id)
      \<and> out (fst (source_tag_iteration example_jinja caret_search override_world 1
                     (example_builder False default_tags) (example_build default_tags)
                     ''20170101000000'' ''image-build/app'' ''1.0'' False (initial_state [])))
        = eff @ [ImagesGet image_id, ImageTag image_id ''image-build/app'' ''latest''])"
proof -
  let ?B = "example_builder False default_tags"
  let ?b = "example_build default_tags"
  let ?v = "snd (example_variants default_tags ! 1)"
  let ?it = "source_tag_iteration example_jinja caret_search override_world 1 ?B ?b
               ''20170101000000'' ''image-build/app'' ''1.0'' False (initial_state [])"
  let ?bv = "[(''_source'', PDict [(''name'', PStr ''app''), (''tag'', PStr ''1.0''),
                                   (''primary'', PBool True)]),
              (''_dest'', PDict [(''name'', PStr ''app''), (''namespace'', PStr ''image-build'')]),
              (''_timestamp'', PStr ''20170101000000'')]"
  have v: "map_of (variants ?b) ''1.0'' = Some ?v"
    by code_simp
  have s: "snd ?it = Some (Inr True)"
    by code_simp
  then have it: "?it = (fst ?it, Some (Inr True))"
    by (metis prod.collapse)
  have d: "\<not> dry_run ?B"
    by (simp add: example_builder_def)
  have o: "out (initial_state []) = []"
    by (simp add: initial_state_def)
  have sel: "self_select ?B = None"
    by (simp add: example_builder_def)
  have i: "inject ?b ''1.0'' ''20170101000000'' (self_variables (initial_state []))
           = Inr (True, ?bv)"
    by code_simp
  have t: "render_tags example_jinja caret_search 1 ?v
          (self_variables (fst (root_phase example_jinja caret_search override_world 1 ?B ?b
             True ((initial_state [])\<lparr>self_variables := ?bv\<rparr>))))
          None True = Some (Inr [''latest''])"
    by code_simp
  from override_tags_replace [THEN conjunct1, rule_format, OF conjI [OF v it]]
  obtain primary bvars ts' where
    i': "inject ?b ''1.0'' ''20170101000000'' (self_variables (initial_state []))
         = Inr (primary, bvars)"
    and t': "render_tags example_jinja caret_search 1 ?v
          (self_variables (fst (root_phase example_jinja caret_search override_world 1 ?B ?b
             primary ((initial_state [])\<lparr>self_variables := bvars\<rparr>))))
          (self_select ?B) primary = Some (Inr ts')"
    and b: "\<not> dry_run ?B \<and> ts' \<noteq> [] \<longrightarrow>
          True \<and> (\<exists>eff c image_id.
              build_image override_world c (out (initial_state [])) = (eff, Inr image_id)
            \<and> out (fst ?it) = eff @ ImagesGet image_id
                                 # map (ImageTag image_id ''image-build/app'') ts')"
    by blast
  from i i' have pb: "primary = True" "bvars = ?bv"
    by simp_all
  from t t' have ts: "ts' = [''latest'']"
    unfolding pb sel by simp
  from b d have e: "\<exists>eff c image_id.
        build_image override_world c [] = (eff, Inr image_id)
      \<and> out (fst ?it) = eff @ [ImagesGet image_id, ImageTag image_id ''image-build/app'' ''latest'']"
    unfolding ts o by simp
  from i t have r: "\<exists>bvars.
        inject ?b ''1.0'' ''20170101000000'' (self_variables (initial_state []))
          = Inr (True, bvars)
      \<and> render_tags example_jinja caret_search 1 ?v
          (self_variables (fst (root_phase example_jinja caret_search override_world 1 ?B ?b
             True ((initial_state [])\<lparr>self_variables := bvars\<rparr>))))
          None True = Some (Inr [''latest''])"
    by blast
  from v s d r e show ?thesis by blast
qed

lemma example_run:
  "out (fst (Builder_build example_jinja caret_search override_world 1
               (example_builder False default_tags) (initial_state [])))
   = [Print ''Build: app'', Print (''  Repository: image-build/app'' @ [newline]),
      Print ''  Docker build output:'', ApiBuild [DockerfileMember ''FROM scratch''],
      Print ''    Successfully built 0123abcd'', ImagesGet ''0123abcd'',
      ImageTag ''0123abcd'' ''image-build/app'' ''latest'',
      Print ''  Docker build output:'', ApiBuild [DockerfileMember ''FROM scratch''],
      Print ''    Successfully built 0123abcd'', ImagesGet ''0123abcd'',
      ImageTag ''0123abcd'' ''image-build/app'' ''latest'']"
  by code_simp

lemma example_dry_run_no_tags:
  "out (fst (Builder_build example_jinja caret_search override_world 1
               (example_builder True []) (initial_state [])))
   = [Print ''Build: app'', Print (''  Repository: image-build/app'' @ [newline]),
      Print ''  Source: app:1.0'', Print ''    Tags:'', Print [],
      Print ''    Base files:'', Print [], Print ''    Variant files:'',
      Print [], Print ''    Dockerfile:'', Print ''      FROM scratch'',
      Print ''  Source: app:2.0'', Print ''    Tags:'', Print [],
      Print ''    Base files:'', Print [], Print ''    Variant files:'',
      Print [], Print ''    Dockerfile:'', Print ''      FROM scratch'',
      Print ''The build has no applicable destination for any source tag!'']"
  by code_simp

text \<open>
  Claim C5 as stated fails twice. The override variant of \<^verbatim>\<open>1.0\<close> in the example is
  an empty directory: it declares no tag, and still its tag list is \<^verbatim>\<open>['latest']\<close>,
  the build-level definition, so the engine is called, the image is tagged, and no
  message about a missing destination is printed. And with no tag definitions at all, a
  dry run prints its report for \<^verbatim>\<open>1.0\<close> (with an empty tag list) and not the message.
\<close>

theorem override_tags_counterexample:
  "Build_init example_jinja override_world ''app''
     [(''tags'', PList [PStr ''1.0'', PStr ''2.0''])] ''.'' ''variants'' ''image-build''
     ''Dockerfile.j2'' [] default_tags = Inr (example_build default_tags)
   \<and> config_data override_world ''./variants/1.0'' (Some ''image-build.yml'') = Inr []
   \<and> take 7 (out (fst (Builder_build example_jinja caret_search override_world 1
                          (example_builder False default_tags) (initial_state []))))
      = [Print ''Build: app'', Print (''  Repository: image-build/app'' @ [newline]),
         Print ''  Docker build output:'', ApiBuild [DockerfileMember ''FROM scratch''],
         Print ''    Successfully built 0123abcd'', ImagesGet ''0123abcd'',
         ImageTag ''0123abcd'' ''image-build/app'' ''latest'']
   \<and> no_destination ''1.0''
      \<notin> set (out (fst (Builder_build example_jinja caret_search override_world 1
                          (example_builder False default_tags) (initial_state []))))
   \<and> Build_init example_jinja override_world ''app''
       [(''tags'', PList [PStr ''1.0'', PStr ''2.0''])] ''.'' ''variants'' ''image-build''
       ''Dockerfile.j2'' [] [] = Inr (example_build [])
   \<and> tags (snd (variants (example_build []) ! 1)) = []
   \<and> no_destination ''1.0''
      \<notin> set (out (fst (Builder_build example_jinja caret_search override_world 1
                          (example_builder True []) (initial_state []))))"
proof -
  have c: "config_data override_world ''./variants/1.0'' (Some ''image-build.yml'') = Inr []"
    by code_simp
  have t: "tags (snd (variants (example_build []) ! 1)) = []"
    by code_simp
  show ?thesis
    unfolding example_run example_dry_run_no_tags
    using example_build_init example_build_init_no_tags c t
    by (simp add: no_destination_def)
qed

section \<open>Properties of Builder.build: the variables of an iteration\<close>

text \<open>
  Claim C6 fails on the code. \<^verbatim>\<open>build_variables = self.variables\<close> gives the dict of
  the builder a second name; what an iteration stores in it is still there in the next.
  The iteration for \<^verbatim>\<open>1.0\<close>, which has an override variant, stores the root Dockerfile
  under \<^verbatim>\<open>_base\<close>; the variables the iteration for \<^verbatim>\<open>2.0\<close> then renders its tags and
  its Dockerfile with hold that text, although \<^verbatim>\<open>2.0\<close> has no override variant, while
  \<^verbatim>\<open>_source\<close>, \<^verbatim>\<open>_dest\<close> and \<^verbatim>\<open>_timestamp\<close> are those of \<^verbatim>\<open>2.0\<close>. Started from
  the variables of the command line, the same iteration has no \<^verbatim>\<open>_base\<close>.
\<close>

theorem base_survives_the_iteration:
  "map_of (variants (example_build default_tags)) ''2.0'' = None
   \<and> self_variables (fst (source_tag_iteration example_jinja caret_search override_world 1
        (example_builder False default_tags) (example_build default_tags) ''20170101000000''
        ''image-build/app'' ''1.0'' False (initial_state [])))
      = [(''_source'', PDict [(''name'', PStr ''app''), (''tag'', PStr ''1.0''),
                              (''primary'', PBool True)]),
         (''_dest'', PDict [(''name'', PStr ''app''), (''namespace'', PStr ''image-build''),
                            (''tags'', PList [PStr ''latest''])]),
         (''_timestamp'', PStr ''20170101000000''),
         (''_base'', PStr ''FROM scratch'')]
   \<and> inject (example_build default_tags) ''2.0'' ''20170101000000''
        (self_variables (fst (source_tag_iteration example_jinja caret_search override_world 1
           (example_builder False default_tags) (example_build default_tags)
           ''20170101000000'' ''image-build/app'' ''1.0'' False (initial_state []))))
      = Inr (False,
          [(''_source'', PDict [(''name'', PStr ''app''), (''tag'', PStr ''2.0''),
                                (''primary'', PBool False)]),
           (''_dest'', PDict [(''name'', PStr ''app''), (''namespace'', PStr ''image-build'')]),
           (''_timestamp'', PStr ''20170101000000''),
           (''_base'', PStr ''FROM scratch'')])
   \<and> inject (example_build default_tags) ''2.0'' ''20170101000000''
        (self_variables (initial_state []))
      = Inr (False,
          [(''_source'', PDict [(''name'', PStr ''app''), (''tag'', PStr ''2.0''),
                                (''primary'', PBool False)]),
           (''_dest'', PDict [(''name'', PStr ''app''), (''namespace'', PStr ''image-build'')]),
           (''_timestamp'', PStr ''20170101000000'')])"
  by code_simp

end
